theory Spec2Isabelle
  imports Main "HOL-Library.Sublist" "HOL-Library.AList"
begin

section \<open>The documentation configuration script \<^verbatim>\<open>docs/conf.py\<close>\<close>

text \<open>
  The script is a Sphinx configuration module, read here as Python 3. It defines one
  function, \<^verbatim>\<open>configureDoxyfile\<close>, which instantiates a Doxygen template by two literal
  replacements, and then runs top to bottom once: it reads one environment variable, on
  Read the Docs it instantiates the template and spawns \<^verbatim>\<open>doxygen\<close>, and it
  assigns the module globals that Sphinx, Breathe and rst2pdf read.
\<close>

subsection \<open>Python strings: \<^verbatim>\<open>in\<close> and \<^verbatim>\<open>str.replace\<close>\<close>

text \<open>
  A Python string is a sequence of code points. The string literals of the script are
  ASCII; \<open>str\<close> gives the code points of one.
\<close>

type_synonym unicode = "nat list"

definition str :: "string \<Rightarrow> unicode" where
  "str s = map of_char s"

abbreviation LF :: nat where "LF \<equiv> 10"

abbreviation CR :: nat where "CR \<equiv> 13"

text \<open>\<^verbatim>\<open>sub in s\<close>: \<open>sub\<close> occurs in \<open>s\<close> as a contiguous substring.\<close>

fun contains :: "'a list \<Rightarrow> 'a list \<Rightarrow> bool" where
  "contains sub [] = (sub = [])"
| "contains sub (c # cs) = (prefix sub (c # cs) \<or> contains sub cs)"

text \<open>
  \<^verbatim>\<open>s.replace(old, new)\<close>: every occurrence of \<open>old\<close> found by one scan from the left
  is replaced by \<open>new\<close>; the scan resumes after the replaced occurrence, so occurrences do
  not overlap and the inserted text is not scanned again. For the empty \<open>old\<close> Python
  inserts \<open>new\<close> before every character and at the end.
\<close>

function replace :: "'a list \<Rightarrow> 'a list \<Rightarrow> 'a list \<Rightarrow> 'a list" where
  "replace old new [] = (if old = [] then new else [])"
| "replace old new (c # cs) =
     (if old = [] then new @ c # replace old new cs
      else if prefix old (c # cs) then new @ replace old new (drop (length old) (c # cs))
      else c # replace old new cs)"
  by pat_completeness auto
termination
  by (relation "measure (\<lambda>(old, new, s). length s)") auto

definition DOXYGEN_INPUT_DIR :: unicode where
  "DOXYGEN_INPUT_DIR = str ''@DOXYGEN_INPUT_DIR@''"

definition DOXYGEN_OUTPUT_DIR :: unicode where
  "DOXYGEN_OUTPUT_DIR = str ''@DOXYGEN_OUTPUT_DIR@''"

subsection \<open>Text files: encoding and newlines\<close>

text \<open>
  A file holds bytes. \<^verbatim>\<open>open(p, 'r')\<close> and \<^verbatim>\<open>open(p, 'w')\<close> give text files with the
  defaults of \<^verbatim>\<open>open\<close>: the encoding is \<^verbatim>\<open>locale.getpreferredencoding(False)\<close>, which
  Python takes from the locale environment of the process (\<^verbatim>\<open>LC_ALL\<close>, \<^verbatim>\<open>LC_CTYPE\<close>,
  \<^verbatim>\<open>LANG\<close>), errors are strict, and newlines are translated. The encoding and
  \<^verbatim>\<open>os.linesep\<close> are what the platform contributes; both are parameters here.

  A codec decodes a whole byte string, or fails, and encodes a text code point by code
  point, failing on a code point that it cannot encode.
\<close>

record codec =
  decode :: "string \<Rightarrow> unicode option"
  enc :: "nat \<Rightarrow> string option"

fun encode :: "codec \<Rightarrow> unicode \<Rightarrow> string option" where
  "encode c [] = Some []"
| "encode c (x # xs) =
     (case enc c x of
        None \<Rightarrow> None
      | Some b \<Rightarrow> (case encode c xs of None \<Rightarrow> None | Some bs \<Rightarrow> Some (b @ bs)))"

record platform =
  encoding :: codec
  linesep :: unicode

text \<open>
  Reading translates \<^verbatim>\<open>'\r\n'\<close> and a lone \<^verbatim>\<open>'\r'\<close> to \<^verbatim>\<open>'\n'\<close>; writing translates
  \<^verbatim>\<open>'\n'\<close> to \<^verbatim>\<open>os.linesep\<close> when that is something else.
\<close>

fun universal_newlines :: "unicode \<Rightarrow> unicode" where
  "universal_newlines [] = []"
| "universal_newlines [c] = [if c = CR then LF else c]"
| "universal_newlines (c # d # cs) =
     (if c = CR \<and> d = LF then LF # universal_newlines cs
      else if c = CR then LF # universal_newlines (d # cs)
      else c # universal_newlines (d # cs))"

definition to_linesep :: "unicode \<Rightarrow> unicode \<Rightarrow> unicode" where
  "to_linesep nl t = (if nl = [LF] then t else replace [LF] nl t)"

subsection \<open>The file system\<close>

text \<open>
  A path leads to a file: \<open>denotes\<close> gives, for an \<^verbatim>\<open>open\<close> in the given mode, the file
  that the path leads to after symbolic links are followed, or the error of the lookup
  (a loop of links, a missing permission). Files are named by an identifier of their own,
  which every path to the same file shares: hard links, symbolic links and other spellings
  of a path. A file is absent (it can be created), a regular file with its bytes, or a
  directory. \<^verbatim>\<open>configureDoxyfile\<close> makes no links, so only \<open>contents\<close> changes.
\<close>

datatype node = File string | Dir

datatype mode = Reading | Writing

datatype os_error =
  FileNotFoundError | IsADirectoryError | PermissionError | LoopError

record fs =
  denotes :: "mode \<Rightarrow> string \<Rightarrow> os_error + string"
  contents :: "string \<rightharpoonup> node"

datatype exn =
    OSError os_error
  | UnicodeDecodeError
  | UnicodeEncodeError
  | NameError string
  | TypeError

text \<open>
  \<^verbatim>\<open>with open(p, 'r') as file: file.read()\<close> gives the text of the file, or raises.
\<close>

definition open_read :: "platform \<Rightarrow> string \<Rightarrow> fs \<Rightarrow> exn + unicode" where
  "open_read pf p fsys =
     (case denotes fsys Reading p of
        Inl e \<Rightarrow> Inl (OSError e)
      | Inr f \<Rightarrow>
          (case contents fsys f of
             None \<Rightarrow> Inl (OSError FileNotFoundError)
           | Some Dir \<Rightarrow> Inl (OSError IsADirectoryError)
           | Some (File bs) \<Rightarrow>
               (case decode (encoding pf) bs of
                  None \<Rightarrow> Inl UnicodeDecodeError
                | Some t \<Rightarrow> Inr (universal_newlines t))))"

text \<open>
  \<^verbatim>\<open>with open(p, 'w') as file: file.write(txt)\<close>. Opening creates the file or empties
  it; \<^verbatim>\<open>write\<close> translates and encodes the whole text before it stores a byte, so a
  text that cannot be encoded leaves the file empty.
\<close>

definition open_write :: "platform \<Rightarrow> string \<Rightarrow> unicode \<Rightarrow> fs \<Rightarrow> exn option \<times> fs" where
  "open_write pf p txt fsys =
     (case denotes fsys Writing p of
        Inl e \<Rightarrow> (Some (OSError e), fsys)
      | Inr f \<Rightarrow>
          (case contents fsys f of
             Some Dir \<Rightarrow> (Some (OSError IsADirectoryError), fsys)
           | _ \<Rightarrow>
               (case encode (encoding pf) (to_linesep (linesep pf) txt) of
                  None \<Rightarrow> (Some UnicodeEncodeError, fsys\<lparr>contents := (contents fsys)(f \<mapsto> File [])\<rparr>)
                | Some bs \<Rightarrow> (None, fsys\<lparr>contents := (contents fsys)(f \<mapsto> File bs)\<rparr>))))"

subsection \<open>\<^verbatim>\<open>configureDoxyfile\<close>\<close>

text \<open>
  \<^verbatim>\<open>configureDoxyfile(input_dir, output_dir)\<close>, lines 19 to 28. The result pairs the
  outcome (the exception raised, or a normal return) with the file system the call leaves
  behind. The template is read and closed before \<^verbatim>\<open>Doxyfile\<close> is opened.
\<close>

definition configureDoxyfile ::
    "platform \<Rightarrow> unicode \<Rightarrow> unicode \<Rightarrow> fs \<Rightarrow> (exn + unit) \<times> fs" where
  "configureDoxyfile pf input_dir output_dir fsys =
     (case open_read pf ''Doxyfile.in'' fsys of
        Inl e \<Rightarrow> (Inl e, fsys)
      | Inr filedata \<Rightarrow>
          (let filedata1 = replace DOXYGEN_INPUT_DIR input_dir filedata;
               filedata2 = replace DOXYGEN_OUTPUT_DIR output_dir filedata1
           in case open_write pf ''Doxyfile'' filedata2 fsys of
                (Some e, fsys') \<Rightarrow> (Inl e, fsys')
              | (None, fsys') \<Rightarrow> (Inr (), fsys')))"

subsection \<open>What the specification asks of the substitution\<close>

text \<open>
  A template is a sequence of pieces: literal text and the two tokens. Its text has the
  tokens written out; the text the specification asks for has \<open>input_dir\<close> in place of
  every input token and \<open>output_dir\<close> in place of every output token, and the literal
  pieces as they are.
\<close>

datatype piece = Lit unicode | Input_token | Output_token

fun instantiate :: "unicode \<Rightarrow> unicode \<Rightarrow> piece list \<Rightarrow> unicode" where
  "instantiate i o' [] = []"
| "instantiate i o' (Lit s # ps) = s @ instantiate i o' ps"
| "instantiate i o' (Input_token # ps) = i @ instantiate i o' ps"
| "instantiate i o' (Output_token # ps) = o' @ instantiate i o' ps"

definition template :: "piece list \<Rightarrow> unicode" where
  "template ps = instantiate DOXYGEN_INPUT_DIR DOXYGEN_OUTPUT_DIR ps"

text \<open>
  The pieces account for every occurrence of a token in the text: no token starts inside
  a literal piece or inside a token piece. Then the occurrences of the tokens in the text
  are the token pieces, no two of them overlap, and to replace every occurrence is to
  instantiate the pieces.
\<close>

definition token_at :: "unicode \<Rightarrow> bool" where
  "token_at s \<longleftrightarrow> prefix DOXYGEN_INPUT_DIR s \<or> prefix DOXYGEN_OUTPUT_DIR s"

fun inner :: "piece \<Rightarrow> nat list" where
  "inner (Lit s) = [0..<length s]"
| "inner Input_token = [1..<length DOXYGEN_INPUT_DIR]"
| "inner Output_token = [1..<length DOXYGEN_OUTPUT_DIR]"

fun marked :: "piece list \<Rightarrow> bool" where
  "marked [] = True"
| "marked (p # ps) =
     (list_all (\<lambda>k. \<not> token_at (drop k (template (p # ps)))) (inner p) \<and> marked ps)"

text \<open>
  \<open>input_dir\<close> can complete an occurrence of the output token that the template does
  not have: it holds the token; or it lies inside the token (as the empty string does); or
  it ends with a beginning of the token, of two characters at least; or it begins with an
  end of the token, of two characters at least. One \<^verbatim>\<open>@\<close> at an end of \<open>input_dir\<close> is
  harmless: the input token that it replaces has \<^verbatim>\<open>@\<close> at both ends.
\<close>

definition completes_output_token :: "unicode \<Rightarrow> bool" where
  "completes_output_token input_dir \<longleftrightarrow>
     contains DOXYGEN_OUTPUT_DIR input_dir \<or>
     contains input_dir DOXYGEN_OUTPUT_DIR \<and> input_dir \<noteq> str ''@'' \<or>
     list_ex (\<lambda>k. suffix (take k DOXYGEN_OUTPUT_DIR) input_dir)
       [2..<length DOXYGEN_OUTPUT_DIR] \<or>
     list_ex (\<lambda>k. prefix (drop k DOXYGEN_OUTPUT_DIR) input_dir)
       [1..<length DOXYGEN_OUTPUT_DIR - 1]"

text \<open>
  The bytes of a sequence of pieces: the encoding of every literal piece, and the given
  bytes at the input tokens and at the output tokens. Two byte strings made from the same
  pieces are byte-identical outside the tokens.
\<close>

fun encode_pieces :: "codec \<Rightarrow> string \<Rightarrow> string \<Rightarrow> piece list \<Rightarrow> string option" where
  "encode_pieces c bi bo [] = Some []"
| "encode_pieces c bi bo (p # ps) =
     (case (case p of Lit s \<Rightarrow> encode c s | Input_token \<Rightarrow> Some bi | Output_token \<Rightarrow> Some bo) of
        None \<Rightarrow> None
      | Some b \<Rightarrow>
          (case encode_pieces c bi bo ps of None \<Rightarrow> None | Some bs \<Rightarrow> Some (b @ bs)))"

subsection \<open>The module namespace\<close>

text \<open>
  The values the script binds: strings, booleans, integers, lists, tuples and dictionaries
  with string keys (in insertion order). The module's globals are a map from names to
  values; a name the script has not assigned yet is unbound. The names bound by
  \<^verbatim>\<open>import\<close> and \<^verbatim>\<open>def\<close> (the two modules and the function) are left out: no
  assignment of the script reads or rebinds them.
\<close>

datatype pyval =
    VStr string
  | VBool bool
  | VInt int
  | VList "pyval list"
  | VTuple "pyval list"
  | VDict "(string \<times> pyval) list"

type_synonym namespace = "string \<rightharpoonup> pyval"

text \<open>\<^verbatim>\<open>d[k] = v\<close> for a global \<open>d\<close>, and the lookup \<^verbatim>\<open>d[k]\<close>.\<close>

definition setitem :: "string \<Rightarrow> string \<Rightarrow> pyval \<Rightarrow> namespace \<Rightarrow> exn + namespace" where
  "setitem d k v ns =
     (case ns d of
        None \<Rightarrow> Inl (NameError d)
      | Some (VDict kvs) \<Rightarrow> Inr (ns(d \<mapsto> VDict (AList.update k v kvs)))
      | Some _ \<Rightarrow> Inl TypeError)"

definition getitem :: "string \<Rightarrow> string \<Rightarrow> namespace \<Rightarrow> pyval option" where
  "getitem d k ns =
     (case ns d of
        Some (VDict kvs) \<Rightarrow> map_of kvs k
      | _ \<Rightarrow> None)"

subsection \<open>The script\<close>

text \<open>
  What the script does to the outside: the files, and the calls it makes, recorded in
  order. The environment is \<^verbatim>\<open>os.environ\<close>. The shell stands for
  \<^verbatim>\<open>subprocess.call(cmd, shell=True)\<close>: it blocks, and gives the exit status of the
  command and the files the command leaves behind.
\<close>

datatype event = Call_configureDoxyfile string string | Call_subprocess string

record world =
  files :: fs
  trace :: "event list"

type_synonym environ = "string \<rightharpoonup> string"

type_synonym shell = "string \<Rightarrow> fs \<Rightarrow> int \<times> fs"

text \<open>
  Lines 35 to 39, the body of \<^verbatim>\<open>if read_the_docs_build:\<close>. The value of
  \<^verbatim>\<open>subprocess.call\<close> is dropped.
\<close>

definition rtd_branch ::
    "platform \<Rightarrow> shell \<Rightarrow> namespace \<Rightarrow> world \<Rightarrow> (exn + namespace) \<times> world" where
  "rtd_branch pf sh ns w =
     (let input_dir = ''../include'';
          output_dir = ''build'';
          ns1 = ns(''input_dir'' \<mapsto> VStr input_dir, ''output_dir'' \<mapsto> VStr output_dir);
          w1 = w\<lparr>trace := trace w @ [Call_configureDoxyfile input_dir output_dir]\<rparr>
      in case configureDoxyfile pf (str input_dir) (str output_dir) (files w1) of
           (Inl e, fsys) \<Rightarrow> (Inl e, w1\<lparr>files := fsys\<rparr>)
         | (Inr u, fsys) \<Rightarrow>
             (let w2 = w1\<lparr>files := fsys, trace := trace w1 @ [Call_subprocess ''doxygen'']\<rparr>;
                  w3 = w2\<lparr>files := snd (sh ''doxygen'' fsys)\<rparr>
              in (setitem ''breathe_projects'' ''posixcpptimer'' (VStr (output_dir @ ''/xml'')) ns1,
                  w3)))"

text \<open>Lines 44 to 82: project information, general configuration, HTML output.\<close>

definition project_settings :: "namespace \<Rightarrow> namespace" where
  "project_settings ns =
     ns(''project'' \<mapsto> VStr ''posixcpptimer'',
        ''copyright'' \<mapsto> VStr ''2021, Andrei Mironenko'',
        ''author'' \<mapsto> VStr ''Andrei Mironenko'',
        ''master_doc'' \<mapsto> VStr ''index'',
        ''primary_domain'' \<mapsto> VStr ''cpp'',
        ''breathe_domain_by_extension'' \<mapsto> VDict [(''h'', VStr ''cpp'')],
        ''extensions'' \<mapsto> VList [VStr ''breathe'', VStr ''sphinx.ext.autodoc'', VStr ''rst2pdf.pdfbuilder''],
        ''templates_path'' \<mapsto> VList [VStr ''_templates''],
        ''exclude_patterns'' \<mapsto> VList [VStr ''_build'', VStr ''Thumbs.db'', VStr ''.DS_Store''],
        ''html_theme'' \<mapsto> VStr ''sphinx_rtd_theme'',
        ''html_static_path'' \<mapsto> VList [])"

text \<open>Lines 104 to 191: the options of the PDF builder.\<close>

definition pdf_settings :: "namespace \<Rightarrow> namespace" where
  "pdf_settings ns =
     ns(''pdf_documents'' \<mapsto>
          VList [VTuple [VStr ''index'', VStr ''posixcpptimer'',
                        VStr ''Posix C++17 timer wrapper library'', VStr ''Andrei Mironenko'']],
        ''pdf_stylesheets'' \<mapsto> VList [VStr ''sphinx'', VStr ''kerning'', VStr ''a4''],
        ''pdf_style_path'' \<mapsto> VList [VStr ''.'', VStr ''_styles''],
        ''pdf_header'' \<mapsto> VStr ''section ###Section### ###SectNum###'',
        ''pdf_footer'' \<mapsto> VStr ''Page ###Page###'',
        ''pdf_inline_footnotes'' \<mapsto> VBool True,
        ''pdf_use_coverpage'' \<mapsto> VBool True,
        ''pdf_cover_template'' \<mapsto> VStr ''sphinxcover.tmpl'',
        ''pdf_page_template'' \<mapsto> VStr ''cutePage'',
        ''pdf_toc_depth'' \<mapsto> VInt 9999,
        ''pdf_use_numbered_links'' \<mapsto> VBool False,
        ''pdf_fit_background_mode'' \<mapsto> VStr ''scale'',
        ''pdf_repeat_table_rows'' \<mapsto> VBool True)"

text \<open>Lines 44 to 191, with the Breathe configuration of lines 86 and 87 in its place.\<close>

definition settings :: "namespace \<Rightarrow> exn + namespace" where
  "settings ns =
     (case setitem ''breathe_projects'' ''posixcpptimer'' (VStr ''../build/docs/doxygen/xml'')
             (project_settings ns) of
        Inl e \<Rightarrow> Inl e
      | Inr ns1 \<Rightarrow> Inr (pdf_settings (ns1(''breathe_default_project'' \<mapsto> VStr ''posixcpptimer''))))"

text \<open>
  The whole module, run once from the top. An exception ends the run where it is raised:
  nothing in the script catches one.
\<close>

definition conf_py ::
    "platform \<Rightarrow> environ \<Rightarrow> shell \<Rightarrow> world \<Rightarrow> (exn + namespace) \<times> world" where
  "conf_py pf env sh w =
     (let read_the_docs_build = (env ''READTHEDOCS'' = Some ''True'');
          ns = [''read_the_docs_build'' \<mapsto> VBool read_the_docs_build,
                ''breathe_projects'' \<mapsto> VDict []]
      in case (if read_the_docs_build then rtd_branch pf sh ns w else (Inr ns, w)) of
           (Inl e, w') \<Rightarrow> (Inl e, w')
         | (Inr ns', w') \<Rightarrow> (settings ns', w'))"

subsection \<open>Observing a run\<close>

text \<open>
  What a path holds for a reader; the exception a run ended with, if any; and
  \<^verbatim>\<open>breathe_projects['posixcpptimer']\<close> in the namespace a run returned.
\<close>

definition node_at :: "fs \<Rightarrow> string \<Rightarrow> os_error + node option" where
  "node_at fsys p =
     (case denotes fsys Reading p of Inl e \<Rightarrow> Inl e | Inr f \<Rightarrow> Inr (contents fsys f))"

definition raised :: "(exn + namespace) \<times> world \<Rightarrow> exn option" where
  "raised r = (case fst r of Inl e \<Rightarrow> Some e | Inr ns \<Rightarrow> None)"

definition registered :: "(exn + namespace) \<times> world \<Rightarrow> pyval option" where
  "registered r =
     (case fst r of
        Inl e \<Rightarrow> None
      | Inr ns \<Rightarrow> getitem ''breathe_projects'' ''posixcpptimer'' ns)"

subsection \<open>Inputs for concrete runs\<close>

text \<open>
  Python's \<^verbatim>\<open>ascii\<close> and \<^verbatim>\<open>latin-1\<close> codecs, and the part of its \<^verbatim>\<open>cp932\<close> codec (the
  ANSI code page of a Japanese Windows) for ASCII and the full-width not sign U+FFE2:
  the byte pairs \<^verbatim>\<open>81 CA\<close> and \<^verbatim>\<open>FA 54\<close> both decode to it, and it is encoded as
  \<^verbatim>\<open>81 CA\<close>; a platform with the line separator of
  POSIX and one with that of Windows; a directory without links, in which every path is a
  file of its own; the same with the path \<open>p\<close> made a link to \<open>q\<close>; a working
  directory that holds only the template, with no call made yet; and a command that
  leaves the files alone and exits with the given status.
\<close>

definition ascii :: codec where
  "ascii =
     \<lparr>decode = (\<lambda>bs. if list_all (\<lambda>b. (of_char b :: nat) < 128) bs
                      then Some (map of_char bs) else None),
      enc = (\<lambda>x. if x < 128 then Some [char_of x] else None)\<rparr>"

definition latin1 :: codec where
  "latin1 =
     \<lparr>decode = (\<lambda>bs. Some (map of_char bs)),
      enc = (\<lambda>x. if x < 256 then Some [char_of x] else None)\<rparr>"

fun decode_cp932 :: "string \<Rightarrow> unicode option" where
  "decode_cp932 [] = Some []"
| "decode_cp932 [b] = (if (of_char b :: nat) < 128 then Some [of_char b] else None)"
| "decode_cp932 (b # b' # bs) =
     (if (of_char b :: nat) < 128 then map_option ((#) (of_char b)) (decode_cp932 (b' # bs))
      else if (b = CHR 0x81 \<and> b' = CHR 0xCA) \<or> (b = CHR 0xFA \<and> b' = CHR 0x54)
        then map_option ((#) 0xFFE2) (decode_cp932 bs)
      else None)"

definition cp932 :: codec where
  "cp932 =
     \<lparr>decode = decode_cp932,
      enc = (\<lambda>x. if x < 128 then Some [char_of x]
                 else if x = 0xFFE2 then Some [CHR 0x81, CHR 0xCA] else None)\<rparr>"

definition posix :: "codec \<Rightarrow> platform" where
  "posix c = \<lparr>encoding = c, linesep = [LF]\<rparr>"

definition windows :: "codec \<Rightarrow> platform" where
  "windows c = \<lparr>encoding = c, linesep = [CR, LF]\<rparr>"

definition plain :: "(string \<rightharpoonup> node) \<Rightarrow> fs" where
  "plain m = \<lparr>denotes = (\<lambda>md p. Inr p), contents = m\<rparr>"

definition link :: "string \<Rightarrow> string \<Rightarrow> fs \<Rightarrow> fs" where
  "link p q fsys =
     fsys\<lparr>denotes := (\<lambda>md x. if x = p then denotes fsys md q else denotes fsys md x)\<rparr>"

definition directory_with :: "string \<Rightarrow> world" where
  "directory_with t = \<lparr>files = plain [''Doxyfile.in'' \<mapsto> File t], trace = []\<rparr>"

definition doxygen_exit :: "int \<Rightarrow> shell" where
  "doxygen_exit status = (\<lambda>cmd fsys. (status, fsys))"

section \<open>Properties of the string operations\<close>

lemma replace_absent: "\<not> contains old s \<Longrightarrow> replace old new s = s"
  by (induction s) auto

lemma replace_prefix: "old \<noteq> [] \<Longrightarrow> replace old new (old @ s) = new @ replace old new s"
  by (cases old) auto

lemma replace_free:
  "old \<noteq> [] \<Longrightarrow> \<forall>k<length u. \<not> prefix old (drop k (u @ r)) \<Longrightarrow>
   replace old new (u @ r) = u @ replace old new r"
proof (induction u)
  case Nil
  then show ?case by simp
next
  case (Cons c u)
  from Cons.prems(2) have "\<not> prefix old (c # u @ r)"
    by fastforce
  moreover have "\<forall>k<length u. \<not> prefix old (drop k (u @ r))"
    using Cons.prems(2) by fastforce
  ultimately show ?case
    using Cons.IH Cons.prems(1) by simp
qed

lemma contains_iff: "contains sub s \<longleftrightarrow> (\<exists>a b. s = a @ sub @ b)"
proof (induction s)
  case Nil
  then show ?case by simp
next
  case (Cons c s)
  show ?case
  proof
    assume "contains sub (c # s)"
    then consider "prefix sub (c # s)" | "contains sub s" by auto
    then show "\<exists>a b. c # s = a @ sub @ b"
    proof cases
      case 1
      then obtain b where "c # s = sub @ b" by (auto simp: prefix_def)
      then have "c # s = [] @ sub @ b" by simp
      then show ?thesis by blast
    next
      case 2
      with Cons.IH obtain a b where "s = a @ sub @ b" by blast
      then have "c # s = (c # a) @ sub @ b" by simp
      then show ?thesis by blast
    qed
  next
    assume "\<exists>a b. c # s = a @ sub @ b"
    then obtain a b where ab: "c # s = a @ sub @ b" by blast
    show "contains sub (c # s)"
    proof (cases a)
      case Nil
      with ab have "prefix sub (c # s)" by (metis append_Nil prefixI)
      then show ?thesis by simp
    next
      case (Cons x a')
      with ab have "s = a' @ sub @ b" by simp
      with Cons.IH show ?thesis by auto
    qed
  qed
qed

lemma tokens_nonempty: "DOXYGEN_INPUT_DIR \<noteq> []" "DOXYGEN_OUTPUT_DIR \<noteq> []"
  by (simp_all add: DOXYGEN_INPUT_DIR_def DOXYGEN_OUTPUT_DIR_def str_def)

lemma tokens_length: "length DOXYGEN_INPUT_DIR = 19" "length DOXYGEN_OUTPUT_DIR = 20"
  by (simp_all add: DOXYGEN_INPUT_DIR_def DOXYGEN_OUTPUT_DIR_def str_def)

lemma tokens_differ:
  "\<not> prefix DOXYGEN_INPUT_DIR (DOXYGEN_OUTPUT_DIR @ r)"
  "\<not> prefix DOXYGEN_OUTPUT_DIR (DOXYGEN_INPUT_DIR @ r)"
  by (simp_all add: DOXYGEN_INPUT_DIR_def DOXYGEN_OUTPUT_DIR_def str_def)

lemma template_simps:
  "template [] = []"
  "template (Lit s # ps) = s @ template ps"
  "template (Input_token # ps) = DOXYGEN_INPUT_DIR @ template ps"
  "template (Output_token # ps) = DOXYGEN_OUTPUT_DIR @ template ps"
  by (simp_all add: template_def)

lemma marked_Lit:
  "marked (Lit s # ps) \<Longrightarrow> k < length s \<Longrightarrow> \<not> token_at (drop k (s @ template ps))"
  by (simp add: list_all_iff template_simps)

lemma marked_Output:
  "marked (Output_token # ps) \<Longrightarrow> 1 \<le> k \<Longrightarrow> k < length DOXYGEN_OUTPUT_DIR \<Longrightarrow>
   \<not> token_at (drop k (DOXYGEN_OUTPUT_DIR @ template ps))"
  by (simp add: list_all_iff template_simps)

lemma marked_tl: "marked (p # ps) \<Longrightarrow> marked ps"
  by simp

text \<open>The first replacement.\<close>

lemma replace_input_token:
  "marked ps \<Longrightarrow>
   replace DOXYGEN_INPUT_DIR input_dir (template ps) =
   instantiate input_dir DOXYGEN_OUTPUT_DIR ps"
proof (induction ps)
  case Nil
  then show ?case by (simp add: template_simps tokens_nonempty)
next
  case (Cons p ps)
  then have IH: "replace DOXYGEN_INPUT_DIR input_dir (template ps) =
      instantiate input_dir DOXYGEN_OUTPUT_DIR ps"
    by simp
  show ?case
  proof (cases p)
    case (Lit s)
    have "\<forall>k<length s. \<not> prefix DOXYGEN_INPUT_DIR (drop k (s @ template ps))"
      using marked_Lit[of s ps] Cons.prems unfolding Lit token_at_def by blast
    then show ?thesis
      unfolding Lit by (simp add: template_simps replace_free tokens_nonempty IH)
  next
    case Input_token
    then show ?thesis
      by (simp add: template_simps replace_prefix tokens_nonempty IH)
  next
    case Output_token
    have "\<not> prefix DOXYGEN_INPUT_DIR (drop k (DOXYGEN_OUTPUT_DIR @ template ps))"
      if "k < length DOXYGEN_OUTPUT_DIR" for k
    proof (cases "k = 0")
      case True
      then show ?thesis by (simp add: tokens_differ)
    next
      case False
      with that marked_Output[of ps k] Cons.prems show ?thesis
        unfolding Output_token token_at_def by simp
    qed
    then show ?thesis
      unfolding Output_token by (simp add: template_simps replace_free tokens_nonempty IH)
  qed
qed

lemma suffix_drop_conv:
  assumes "suffix q s"
  shows "q = drop (length s - length q) s"
  using assms by (auto simp: suffix_def)

lemma completes_holds:
  "contains DOXYGEN_OUTPUT_DIR input_dir \<Longrightarrow> completes_output_token input_dir"
  by (simp add: completes_output_token_def)

lemma completes_inside:
  "contains input_dir DOXYGEN_OUTPUT_DIR \<Longrightarrow> input_dir \<noteq> str ''@'' \<Longrightarrow>
   completes_output_token input_dir"
  by (simp add: completes_output_token_def)

lemma completes_ends:
  assumes "2 \<le> k" "k < length DOXYGEN_OUTPUT_DIR" "suffix (take k DOXYGEN_OUTPUT_DIR) input_dir"
  shows "completes_output_token input_dir"
  using assms unfolding completes_output_token_def list_ex_iff by auto

lemma completes_begins:
  assumes "1 \<le> k" "k < length DOXYGEN_OUTPUT_DIR - 1"
    "prefix (drop k DOXYGEN_OUTPUT_DIR) input_dir"
  shows "completes_output_token input_dir"
  using assms unfolding completes_output_token_def list_ex_iff by auto

text \<open>The character \<^verbatim>\<open>@\<close> in the tokens: at both ends, and nowhere else.\<close>

lemma input_token_begins: "\<exists>r. DOXYGEN_INPUT_DIR = str ''@'' @ r"
  by (simp add: DOXYGEN_INPUT_DIR_def str_def)

lemma input_token_ends: "drop 18 DOXYGEN_INPUT_DIR = str ''@''"
  by (simp add: DOXYGEN_INPUT_DIR_def str_def)

lemma output_token_last: "drop 19 DOXYGEN_OUTPUT_DIR = str ''@''"
  by (simp add: DOXYGEN_OUTPUT_DIR_def str_def)

lemma output_token_first: "take 1 DOXYGEN_OUTPUT_DIR = str ''@''"
  by (simp add: DOXYGEN_OUTPUT_DIR_def str_def)

lemma output_token_suffix_at:
  assumes "suffix (str ''@'' @ us) DOXYGEN_OUTPUT_DIR"
  shows "us = [] \<or> str ''@'' @ us = DOXYGEN_OUTPUT_DIR"
  using assms by (auto simp: DOXYGEN_OUTPUT_DIR_def str_def suffix_Cons)

text \<open>
  After an input token that is marked, the template does not go on as the output token
  goes on after its first character.
\<close>

lemma marked_Input_end:
  assumes "marked (Input_token # ps)" and "DOXYGEN_OUTPUT_DIR = str ''@'' @ us"
  shows "\<not> prefix us (template ps)"
proof
  assume "prefix us (template ps)"
  then have "prefix (str ''@'' @ us) (str ''@'' @ template ps)"
    by (metis same_prefix_prefix)
  then have "prefix DOXYGEN_OUTPUT_DIR (str ''@'' @ template ps)"
    unfolding assms(2) .
  then have "token_at (drop 18 (DOXYGEN_INPUT_DIR @ template ps))"
    by (simp add: token_at_def input_token_ends tokens_length)
  moreover have "\<not> token_at (drop 18 (DOXYGEN_INPUT_DIR @ template ps))"
    using assms(1) by (simp add: list_all_iff template_simps tokens_length)
  ultimately show False by blast
qed

text \<open>A non-empty end of the output token that begins the inserted text.\<close>

lemma suffix_token_prefix_input:
  assumes q: "suffix q DOXYGEN_OUTPUT_DIR" "q \<noteq> []" and p: "prefix q input_dir"
  shows "completes_output_token input_dir \<or> q = str ''@''"
proof -
  let ?k = "length DOXYGEN_OUTPUT_DIR - length q"
  have qk: "q = drop ?k DOXYGEN_OUTPUT_DIR"
    using q(1) by (rule suffix_drop_conv)
  have len: "length q \<le> length DOXYGEN_OUTPUT_DIR"
    using q(1) by (rule suffix_length_le)
  have lt: "?k < length DOXYGEN_OUTPUT_DIR"
    using q(2) len by (cases q) auto
  have "?k = 0 \<or> 1 \<le> ?k \<and> ?k < length DOXYGEN_OUTPUT_DIR - 1 \<or> ?k = 19"
    using lt unfolding tokens_length by arith
  then consider (whole) "?k = 0" | (part) "1 \<le> ?k \<and> ?k < length DOXYGEN_OUTPUT_DIR - 1"
    | (one) "?k = 19"
    by (elim disjE) simp_all
  then show ?thesis
  proof cases
    case whole
    with qk have "q = DOXYGEN_OUTPUT_DIR" by simp
    with p obtain b where "input_dir = [] @ DOXYGEN_OUTPUT_DIR @ b"
      by (auto simp: prefix_def)
    then have "contains DOXYGEN_OUTPUT_DIR input_dir"
      unfolding contains_iff by blast
    then show ?thesis using completes_holds by blast
  next
    case part
    moreover have "prefix (drop ?k DOXYGEN_OUTPUT_DIR) input_dir"
      using p qk by simp
    ultimately show ?thesis
      using completes_begins[of ?k input_dir] by blast
  next
    case one
    with qk have "q = drop 19 DOXYGEN_OUTPUT_DIR" by simp
    then show ?thesis by (simp add: output_token_last)
  qed
qed

text \<open>The inserted text, whole, inside an end of the output token.\<close>

lemma input_inside_token:
  assumes "suffix q DOXYGEN_OUTPUT_DIR" and "q = input_dir @ us"
  shows "completes_output_token input_dir \<or> input_dir = str ''@''"
proof -
  from assms obtain a where "DOXYGEN_OUTPUT_DIR = a @ input_dir @ us"
    by (auto simp: suffix_def)
  then have "contains input_dir DOXYGEN_OUTPUT_DIR"
    unfolding contains_iff by blast
  then show ?thesis using completes_inside by blast
qed

text \<open>
  An end of the output token that begins the text after the first replacement began the
  template already.
\<close>

lemma token_end_before_replacement:
  assumes "\<not> completes_output_token input_dir"
  shows "marked ps \<Longrightarrow> suffix q DOXYGEN_OUTPUT_DIR \<Longrightarrow>
         prefix q (instantiate input_dir DOXYGEN_OUTPUT_DIR ps) \<Longrightarrow> prefix q (template ps)"
proof (induction ps arbitrary: q)
  case Nil
  then show ?case by (simp add: template_simps)
next
  case (Cons p ps)
  have m: "marked ps" using Cons.prems(1) by (rule marked_tl)
  have IH: "prefix us (template ps)"
    if "suffix us DOXYGEN_OUTPUT_DIR" "prefix us (instantiate input_dir DOXYGEN_OUTPUT_DIR ps)"
    for us
    using Cons.IH[OF m that] .
  have step: "prefix q (s @ template ps)"
    if "prefix q (s @ instantiate input_dir DOXYGEN_OUTPUT_DIR ps)" for s
  proof -
    from that consider "prefix q s"
      | us where "q = s @ us" "prefix us (instantiate input_dir DOXYGEN_OUTPUT_DIR ps)"
      unfolding prefix_append by blast
    then show ?thesis
    proof cases
      case 1
      then show ?thesis by simp
    next
      case 2
      have "suffix us q" using 2(1) by (rule suffixI)
      then have "suffix us DOXYGEN_OUTPUT_DIR"
        using Cons.prems(2) by (rule suffix_order.trans)
      with IH 2(2) have "prefix us (template ps)" by blast
      with 2(1) show ?thesis by simp
    qed
  qed
  show ?case
  proof (cases p)
    case (Lit s)
    with Cons.prems(3) step[of s] show ?thesis by (simp add: template_simps)
  next
    case Output_token
    with Cons.prems(3) step[of DOXYGEN_OUTPUT_DIR] show ?thesis by (simp add: template_simps)
  next
    case Input_token
    obtain r where "DOXYGEN_INPUT_DIR = str ''@'' @ r"
      using input_token_begins by blast
    then have "template (p # ps) = str ''@'' @ (r @ template ps)"
      unfolding Input_token by (simp add: template_simps)
    then have at: "prefix (str ''@'') (template (p # ps))"
      by (metis prefixI)
    from Input_token Cons.prems(3)
    have "prefix q (input_dir @ instantiate input_dir DOXYGEN_OUTPUT_DIR ps)"
      by simp
    then consider "q = []" | "q \<noteq> []" "prefix q input_dir"
      | us where "q = input_dir @ us" "prefix us (instantiate input_dir DOXYGEN_OUTPUT_DIR ps)"
      unfolding prefix_append by blast
    then show ?thesis
    proof cases
      case 1
      then show ?thesis by simp
    next
      case 2
      with suffix_token_prefix_input[OF Cons.prems(2)] assms have "q = str ''@''" by blast
      with at show ?thesis by simp
    next
      case 3
      with input_inside_token[OF Cons.prems(2)] assms have i: "input_dir = str ''@''" by blast
      with 3(1) Cons.prems(2) have "us = [] \<or> str ''@'' @ us = DOXYGEN_OUTPUT_DIR"
        using output_token_suffix_at by blast
      then show ?thesis
      proof
        assume "us = []"
        with 3(1) i at show ?thesis by simp
      next
        assume t: "str ''@'' @ us = DOXYGEN_OUTPUT_DIR"
        then have "suffix us DOXYGEN_OUTPUT_DIR" by (metis suffixI)
        with IH 3(2) have "prefix us (template ps)" by blast
        moreover have "\<not> prefix us (template ps)"
          using marked_Input_end[of ps us] Cons.prems(1) t unfolding Input_token by simp
        ultimately show ?thesis by blast
      qed
    qed
  qed
qed

text \<open>No occurrence of the output token starts inside the inserted text.\<close>

lemma no_token_from_input:
  assumes "\<not> completes_output_token input_dir" and "marked (Input_token # ps)"
    and "k < length input_dir"
  shows "\<not> prefix DOXYGEN_OUTPUT_DIR
             (drop k (input_dir @ instantiate input_dir DOXYGEN_OUTPUT_DIR ps))"
proof
  let ?s = "drop k input_dir"
  let ?x = "instantiate input_dir DOXYGEN_OUTPUT_DIR ps"
  assume "prefix DOXYGEN_OUTPUT_DIR (drop k (input_dir @ ?x))"
  with assms(3) have "prefix DOXYGEN_OUTPUT_DIR (?s @ ?x)" by simp
  then consider "prefix DOXYGEN_OUTPUT_DIR ?s"
    | us where "DOXYGEN_OUTPUT_DIR = ?s @ us" "prefix us ?x"
    unfolding prefix_append by blast
  then have "completes_output_token input_dir"
  proof cases
    case 1
    then obtain b where "?s = DOXYGEN_OUTPUT_DIR @ b" by (auto simp: prefix_def)
    then have "input_dir = take k input_dir @ DOXYGEN_OUTPUT_DIR @ b"
      by (metis append_take_drop_id)
    then have "contains DOXYGEN_OUTPUT_DIR input_dir"
      unfolding contains_iff by blast
    then show ?thesis by (rule completes_holds)
  next
    case 2
    have ne: "?s \<noteq> []" using assms(3) by simp
    have s: "?s = take (length ?s) DOXYGEN_OUTPUT_DIR"
      using 2(1) by (metis append_eq_conv_conj)
    have suf: "suffix ?s input_dir" by (rule suffix_drop)
    have len: "length DOXYGEN_OUTPUT_DIR = length ?s + length us"
      using 2(1) by (metis length_append)
    have "1 \<le> length ?s" using ne by (cases ?s) auto
    moreover have "us = [] \<or> 1 \<le> length us" by (cases us) auto
    ultimately have "us = [] \<or> length ?s = 1 \<and> us \<noteq> [] \<or>
        2 \<le> length ?s \<and> length ?s < length DOXYGEN_OUTPUT_DIR"
      unfolding len by auto
    then consider "us = []" | "length ?s = 1" "us \<noteq> []"
      | "2 \<le> length ?s" "length ?s < length DOXYGEN_OUTPUT_DIR"
      by blast
    then show ?thesis
    proof cases
      case 1
      with 2(1) have "?s = DOXYGEN_OUTPUT_DIR" by simp
      then have "input_dir = take k input_dir @ DOXYGEN_OUTPUT_DIR @ []"
        by (metis append_Nil2 append_take_drop_id)
      then have "contains DOXYGEN_OUTPUT_DIR input_dir"
        unfolding contains_iff by blast
      then show ?thesis by (rule completes_holds)
    next
      case 2
      have "?s = take 1 DOXYGEN_OUTPUT_DIR"
        using s by (simp only: 2(1))
      then have "?s = str ''@''" by (simp only: output_token_first)
      with \<open>DOXYGEN_OUTPUT_DIR = ?s @ us\<close> have t: "DOXYGEN_OUTPUT_DIR = str ''@'' @ us"
        by simp
      then have "suffix us DOXYGEN_OUTPUT_DIR" by (metis suffixI)
      with token_end_before_replacement[OF assms(1) marked_tl[OF assms(2)]] \<open>prefix us ?x\<close>
      have "prefix us (template ps)" by blast
      with marked_Input_end[OF assms(2) t] show ?thesis by blast
    next
      case 3
      moreover have "suffix (take (length ?s) DOXYGEN_OUTPUT_DIR) input_dir"
        by (metis s suf)
      ultimately show ?thesis using completes_ends by blast
    qed
  qed
  with assms(1) show False by blast
qed

text \<open>The second replacement.\<close>

lemma replace_output_token:
  assumes "\<not> completes_output_token input_dir"
  shows "marked ps \<Longrightarrow>
   replace DOXYGEN_OUTPUT_DIR output_dir (instantiate input_dir DOXYGEN_OUTPUT_DIR ps) =
   instantiate input_dir output_dir ps"
proof (induction ps)
  case Nil
  then show ?case by (simp add: tokens_nonempty)
next
  case (Cons p ps)
  let ?x = "instantiate input_dir DOXYGEN_OUTPUT_DIR ps"
  have m: "marked ps" using Cons.prems by (rule marked_tl)
  from Cons have IH: "replace DOXYGEN_OUTPUT_DIR output_dir ?x = instantiate input_dir output_dir ps"
    by simp
  show ?case
  proof (cases p)
    case (Lit s)
    have "\<not> prefix DOXYGEN_OUTPUT_DIR (drop k (s @ ?x))" if k: "k < length s" for k
    proof
      assume "prefix DOXYGEN_OUTPUT_DIR (drop k (s @ ?x))"
      with k have "prefix DOXYGEN_OUTPUT_DIR (drop k s @ ?x)" by simp
      then consider "prefix DOXYGEN_OUTPUT_DIR (drop k s)"
        | us where "DOXYGEN_OUTPUT_DIR = drop k s @ us" "prefix us ?x"
        unfolding prefix_append by blast
      then have "prefix DOXYGEN_OUTPUT_DIR (drop k s @ template ps)"
      proof cases
        case 1
        then show ?thesis by simp
      next
        case 2
        have "suffix us DOXYGEN_OUTPUT_DIR" using 2(1) by (rule suffixI)
        with token_end_before_replacement[OF assms m] 2(2) have "prefix us (template ps)"
          by blast
        with 2(1) show ?thesis by (metis same_prefix_prefix)
      qed
      with k have "token_at (drop k (s @ template ps))"
        by (simp add: token_at_def)
      with marked_Lit[of s ps k] Cons.prems k show False
        unfolding Lit by blast
    qed
    then show ?thesis
      unfolding Lit by (simp add: replace_free tokens_nonempty IH)
  next
    case Input_token
    have "\<forall>k<length input_dir. \<not> prefix DOXYGEN_OUTPUT_DIR (drop k (input_dir @ ?x))"
      using no_token_from_input[OF assms, of ps] Cons.prems unfolding Input_token by blast
    then show ?thesis
      unfolding Input_token by (simp add: replace_free tokens_nonempty IH)
  next
    case Output_token
    then show ?thesis
      by (simp add: replace_prefix tokens_nonempty IH)
  qed
qed

lemma replace_twice_instantiate:
  "marked ps \<Longrightarrow> \<not> completes_output_token input_dir \<Longrightarrow>
   replace DOXYGEN_OUTPUT_DIR output_dir (replace DOXYGEN_INPUT_DIR input_dir (template ps)) =
   instantiate input_dir output_dir ps"
  by (simp add: replace_input_token replace_output_token)

section \<open>Properties of the files and of \<^verbatim>\<open>configureDoxyfile\<close>\<close>

lemma encode_append:
  "encode c (a @ b) =
     (case encode c a of
        None \<Rightarrow> None
      | Some x \<Rightarrow> (case encode c b of None \<Rightarrow> None | Some y \<Rightarrow> Some (x @ y)))"
  by (induction a) (auto split: option.splits)

lemma universal_newlines_id: "CR \<notin> set t \<Longrightarrow> universal_newlines t = t"
  by (induction t rule: universal_newlines.induct) auto

lemma to_linesep_LF: "to_linesep [LF] t = t"
  by (simp add: to_linesep_def)

lemma decode_ascii:
  "list_all (\<lambda>b. (of_char b :: nat) < 128) s \<Longrightarrow> decode ascii s = Some (str s)"
  by (simp add: ascii_def str_def)

lemma encode_ascii:
  "list_all (\<lambda>b. (of_char b :: nat) < 128) s \<Longrightarrow> encode ascii (str s) = Some s"
  by (induction s) (auto simp: ascii_def str_def)

lemma decode_latin1: "decode latin1 s = Some (str s)"
  by (simp add: latin1_def str_def)

lemma encode_latin1: "encode latin1 (str s) = Some s"
  by (induction s) (auto simp: latin1_def str_def)

lemma configureDoxyfile_writes:
  assumes "open_read pf ''Doxyfile.in'' fsys = Inr t"
    and "denotes fsys Writing ''Doxyfile'' = Inr f" and "contents fsys f \<noteq> Some Dir"
    and "encode (encoding pf) (to_linesep (linesep pf)
           (replace DOXYGEN_OUTPUT_DIR output_dir (replace DOXYGEN_INPUT_DIR input_dir t))) =
         Some bs"
  shows "configureDoxyfile pf input_dir output_dir fsys =
           (Inr (), fsys\<lparr>contents := (contents fsys)(f \<mapsto> File bs)\<rparr>)"
  using assms
  by (auto simp: configureDoxyfile_def open_write_def Let_def split: option.splits node.splits)

lemma open_read_file:
  assumes "node_at fsys p = Inr (Some (File bs))" and "decode (encoding pf) bs = Some t"
  shows "open_read pf p fsys = Inr (universal_newlines t)"
  using assms by (auto simp: node_at_def open_read_def split: sum.splits)

text \<open>
  Reading with universal newlines neither makes nor breaks an occurrence of a text
  without line ends, such as a token.
\<close>

lemma prefix_universal_newlines:
  "CR \<notin> set T \<Longrightarrow> LF \<notin> set T \<Longrightarrow>
   prefix T (universal_newlines s) \<longleftrightarrow> prefix T s"
proof (induction s arbitrary: T rule: universal_newlines.induct)
  case 1
  then show ?case by simp
next
  case (2 c)
  then show ?case by (cases T) auto
next
  case (3 c d cs)
  then show ?case by (cases T) auto
qed

lemma contains_universal_newlines:
  assumes "CR \<notin> set T" "LF \<notin> set T" "T \<noteq> []"
  shows "contains T (universal_newlines s) \<longleftrightarrow> contains T s"
proof (induction s rule: universal_newlines.induct)
  case 1
  then show ?case by simp
next
  case (2 c)
  with assms show ?case by (cases T) auto
next
  case (3 c d cs)
  have p: "prefix T (universal_newlines (c # d # cs)) \<longleftrightarrow> prefix T (c # d # cs)"
    using assms(1,2) by (rule prefix_universal_newlines)
  have q: "prefix T (universal_newlines (d # cs)) \<longleftrightarrow> prefix T (d # cs)"
    using assms(1,2) by (rule prefix_universal_newlines)
  show ?case
  proof (cases "c = CR")
    case True
    with 3 assms show ?thesis by (cases T) auto
  next
    case False
    with 3 p show ?thesis by simp
  qed
qed

lemma tokens_one_line:
  "CR \<notin> set DOXYGEN_INPUT_DIR" "LF \<notin> set DOXYGEN_INPUT_DIR"
  "CR \<notin> set DOXYGEN_OUTPUT_DIR" "LF \<notin> set DOXYGEN_OUTPUT_DIR"
  by (simp_all add: DOXYGEN_INPUT_DIR_def DOXYGEN_OUTPUT_DIR_def str_def)

lemma token_free_read:
  "contains DOXYGEN_INPUT_DIR (universal_newlines t) \<longleftrightarrow> contains DOXYGEN_INPUT_DIR t"
  "contains DOXYGEN_OUTPUT_DIR (universal_newlines t) \<longleftrightarrow> contains DOXYGEN_OUTPUT_DIR t"
  by (simp_all add: contains_universal_newlines tokens_one_line tokens_nonempty)

lemma configureDoxyfile_encode_fails:
  assumes "open_read pf ''Doxyfile.in'' fsys = Inr t"
    and "denotes fsys Writing ''Doxyfile'' = Inr f" and "contents fsys f \<noteq> Some Dir"
    and "encode (encoding pf) (to_linesep (linesep pf)
           (replace DOXYGEN_OUTPUT_DIR output_dir (replace DOXYGEN_INPUT_DIR input_dir t))) =
         None"
  shows "configureDoxyfile pf input_dir output_dir fsys =
           (Inl UnicodeEncodeError, fsys\<lparr>contents := (contents fsys)(f \<mapsto> File [])\<rparr>)"
  using assms
  by (auto simp: configureDoxyfile_def open_write_def Let_def split: option.splits node.splits)

lemma encode_instantiate:
  "encode c i = Some bi \<Longrightarrow> encode c o' = Some bo \<Longrightarrow>
   encode c (instantiate i o' ps) = encode_pieces c bi bo ps"
proof (induction ps)
  case Nil
  then show ?case by simp
next
  case (Cons p ps)
  then show ?case
    by (cases p) (simp_all add: encode_append split: option.splits)
qed

lemma encode_pieces_literals:
  "encode_pieces c bi bo ps = Some bs \<Longrightarrow> \<exists>bs'. encode_pieces c bi' bo' ps = Some bs'"
proof (induction ps arbitrary: bs)
  case Nil
  then show ?case by simp
next
  case (Cons p ps)
  then show ?case
    by (cases p) (auto split: option.splits)
qed

lemmas run = configureDoxyfile_def open_read_def open_write_def node_at_def plain_def
  posix_def windows_def ascii_def latin1_def cp932_def to_linesep_def str_def
  DOXYGEN_INPUT_DIR_def DOXYGEN_OUTPUT_DIR_def char_of_eq_iff



lemma configureDoxyfile_write_fails:
  assumes "open_read pf ''Doxyfile.in'' fsys = Inr t"
    and "denotes fsys Writing ''Doxyfile'' = Inl e \<or>
         (\<exists>f. denotes fsys Writing ''Doxyfile'' = Inr f \<and> contents fsys f = Some Dir \<and>
              e = IsADirectoryError)"
  shows "configureDoxyfile pf i o' fsys = (Inl (OSError e), fsys)"
  using assms
  by (auto simp: configureDoxyfile_def open_write_def Let_def)

lemma open_read_node_at:
  "open_read pf p fsys =
     (case node_at fsys p of
        Inl e \<Rightarrow> Inl (OSError e)
      | Inr None \<Rightarrow> Inl (OSError FileNotFoundError)
      | Inr (Some Dir) \<Rightarrow> Inl (OSError IsADirectoryError)
      | Inr (Some (File bs)) \<Rightarrow>
          (case decode (encoding pf) bs of
             None \<Rightarrow> Inl UnicodeDecodeError
           | Some t \<Rightarrow> Inr (universal_newlines t)))"
  by (simp add: open_read_def node_at_def split: sum.splits option.splits node.splits)

section \<open>Properties of the script\<close>

lemma settings_registers:
  assumes "ns ''breathe_projects'' = Some (VDict kvs)"
  shows "\<exists>ns'. settings ns = Inr ns' \<and>
           getitem ''breathe_projects'' ''posixcpptimer'' ns' =
             Some (VStr ''../build/docs/doxygen/xml'')"
  using assms
  by (simp add: settings_def setitem_def project_settings_def pdf_settings_def getitem_def
      update_conv')

lemma rtd_branch_raises:
  assumes "configureDoxyfile pf (str ''../include'') (str ''build'') (files w) = (Inl e, fsys')"
  shows "rtd_branch pf sh ns w =
           (Inl e, w\<lparr>files := fsys',
                     trace := trace w @ [Call_configureDoxyfile ''../include'' ''build'']\<rparr>)"
  using assms by (simp add: rtd_branch_def Let_def)

lemma rtd_branch_returns:
  assumes "configureDoxyfile pf (str ''../include'') (str ''build'') (files w) = (Inr u, fsys')"
    and "ns ''breathe_projects'' = Some (VDict kvs)"
  shows "rtd_branch pf sh ns w =
     (Inr (ns(''input_dir'' \<mapsto> VStr ''../include'', ''output_dir'' \<mapsto> VStr ''build'',
              ''breathe_projects'' \<mapsto>
                VDict (AList.update ''posixcpptimer'' (VStr ''build/xml'') kvs))),
      \<lparr>files = snd (sh ''doxygen'' fsys'),
       trace = trace w @
         [Call_configureDoxyfile ''../include'' ''build'', Call_subprocess ''doxygen'']\<rparr>)"
  using assms by (simp add: rtd_branch_def Let_def setitem_def)

lemma conf_py_elsewhere:
  "env ''READTHEDOCS'' \<noteq> Some ''True'' \<Longrightarrow>
   conf_py pf env sh w =
     (settings [''read_the_docs_build'' \<mapsto> VBool False, ''breathe_projects'' \<mapsto> VDict []], w)"
  by (simp add: conf_py_def)

lemma conf_py_rtd:
  "env ''READTHEDOCS'' = Some ''True'' \<Longrightarrow>
   conf_py pf env sh w =
     (case rtd_branch pf sh
             [''read_the_docs_build'' \<mapsto> VBool True, ''breathe_projects'' \<mapsto> VDict []] w of
        (Inl e, w') \<Rightarrow> (Inl e, w')
      | (Inr ns', w') \<Rightarrow> (settings ns', w'))"
  by (simp add: conf_py_def)

lemma conf_py_rtd_raises:
  assumes "env ''READTHEDOCS'' = Some ''True''"
    and "configureDoxyfile pf (str ''../include'') (str ''build'') (files w) = (Inl e, fsys')"
  shows "conf_py pf env sh w =
           (Inl e, w\<lparr>files := fsys',
                     trace := trace w @ [Call_configureDoxyfile ''../include'' ''build'']\<rparr>)"
  using assms by (simp add: conf_py_rtd rtd_branch_raises)

lemma conf_py_rtd_returns:
  assumes "env ''READTHEDOCS'' = Some ''True''"
    and "configureDoxyfile pf (str ''../include'') (str ''build'') (files w) = (Inr u, fsys')"
  shows "raised (conf_py pf env sh w) = None \<and>
         registered (conf_py pf env sh w) = Some (VStr ''../build/docs/doxygen/xml'') \<and>
         snd (conf_py pf env sh w) =
           \<lparr>files = snd (sh ''doxygen'' fsys'),
            trace = trace w @
              [Call_configureDoxyfile ''../include'' ''build'', Call_subprocess ''doxygen'']\<rparr>"
proof -
  let ?ns = "[''read_the_docs_build'' \<mapsto> VBool True, ''breathe_projects'' \<mapsto> VDict []]"
  have b: "?ns ''breathe_projects'' = Some (VDict [])" by simp
  let ?ns' = "?ns(''input_dir'' \<mapsto> VStr ''../include'', ''output_dir'' \<mapsto> VStr ''build'',
              ''breathe_projects'' \<mapsto>
                VDict (AList.update ''posixcpptimer'' (VStr ''build/xml'') []))"
  have "?ns' ''breathe_projects'' =
      Some (VDict (AList.update ''posixcpptimer'' (VStr ''build/xml'') []))"
    by simp
  then obtain ns'' where "settings ?ns' = Inr ns''"
    and "getitem ''breathe_projects'' ''posixcpptimer'' ns'' =
           Some (VStr ''../build/docs/doxygen/xml'')"
    using settings_registers[of ?ns'] by blast
  moreover have "rtd_branch pf sh ?ns w = (Inr ?ns',
      \<lparr>files = snd (sh ''doxygen'' fsys'),
       trace = trace w @
         [Call_configureDoxyfile ''../include'' ''build'', Call_subprocess ''doxygen'']\<rparr>)"
    using rtd_branch_returns[of pf w u fsys' ?ns "[]" sh] assms(2) b by simp
  ultimately show ?thesis
    using assms(1) by (simp add: conf_py_rtd raised_def registered_def)
qed

lemma conf_py_elsewhere_registered:
  assumes "env ''READTHEDOCS'' \<noteq> Some ''True''"
  shows "snd (conf_py pf env sh w) = w \<and>
         registered (conf_py pf env sh w) = Some (VStr ''../build/docs/doxygen/xml'')"
proof -
  let ?ns = "[''read_the_docs_build'' \<mapsto> VBool False, ''breathe_projects'' \<mapsto> VDict []]"
  obtain ns' where "settings ?ns = Inr ns'"
    and "getitem ''breathe_projects'' ''posixcpptimer'' ns' =
           Some (VStr ''../build/docs/doxygen/xml'')"
    using settings_registers[of ?ns "[]"] by auto
  with assms show ?thesis
    by (simp add: conf_py_elsewhere registered_def)
qed

lemma conf_py_outcome:
  assumes ok: "raised (conf_py pf env sh w) = None"
  shows "registered (conf_py pf env sh w) = Some (VStr ''../build/docs/doxygen/xml'')"
proof (cases "env ''READTHEDOCS'' = Some ''True''")
  case False
  then show ?thesis using conf_py_elsewhere_registered by blast
next
  case True
  obtain r fsys' where c:
    "configureDoxyfile pf (str ''../include'') (str ''build'') (files w) = (r, fsys')"
    by (cases "configureDoxyfile pf (str ''../include'') (str ''build'') (files w)")
  show ?thesis
  proof (cases r)
    case (Inl e)
    with ok conf_py_rtd_raises[of env pf w e fsys' sh] True c show ?thesis
      by (simp add: raised_def)
  next
    case (Inr u)
    with conf_py_rtd_returns[of env pf w u fsys' sh] True c show ?thesis
      by simp
  qed
qed

section \<open>The claims about \<^verbatim>\<open>configureDoxyfile\<close>\<close>

text \<open>
  Claim C1. Let the template be a sequence of pieces (literal text, input tokens, output
  tokens) that accounts for every occurrence of a token in it; let it hold no carriage
  return and be stored in the encoding of the platform, piece by piece; let the line
  separator of the platform be \<^verbatim>\<open>\n\<close>; let \<open>input_dir\<close> not complete an output
  token; let \<open>input_dir\<close> and \<open>output_dir\<close> be encodable and \<^verbatim>\<open>Doxyfile\<close> lead to
  something that is not a directory. Then \<^verbatim>\<open>configureDoxyfile\<close> returns \<^verbatim>\<open>None\<close>, and
  the file that \<^verbatim>\<open>Doxyfile\<close> leads to holds the bytes of the same pieces with the bytes
  of \<open>input_dir\<close> at every input token and the bytes of \<open>output_dir\<close> at every output
  token: it is byte-identical to the template in every literal piece. No other file
  changes. Neither token has to occur.
\<close>

theorem configureDoxyfile_substitutes_tokens:
  assumes "node_at fsys ''Doxyfile.in'' = Inr (Some (File bs))"
    and "decode (encoding pf) bs = Some (template ps)"
    and "encode_pieces (encoding pf) ''@DOXYGEN_INPUT_DIR@'' ''@DOXYGEN_OUTPUT_DIR@'' ps = Some bs"
    and "CR \<notin> set (template ps)" and "linesep pf = [LF]"
    and "marked ps" and "\<not> completes_output_token input_dir"
    and "encode (encoding pf) input_dir = Some bi" and "encode (encoding pf) output_dir = Some bo"
    and "denotes fsys Writing ''Doxyfile'' = Inr f" and "contents fsys f \<noteq> Some Dir"
  shows "\<exists>bs'. encode_pieces (encoding pf) bi bo ps = Some bs' \<and>
           configureDoxyfile pf input_dir output_dir fsys =
             (Inr (), fsys\<lparr>contents := (contents fsys)(f \<mapsto> File bs')\<rparr>)"
proof -
  obtain bs' where bs': "encode_pieces (encoding pf) bi bo ps = Some bs'"
    using encode_pieces_literals[OF assms(3)] by blast
  have read: "open_read pf ''Doxyfile.in'' fsys = Inr (template ps)"
    using open_read_file[OF assms(1,2)] assms(4) by (simp add: universal_newlines_id)
  have "replace DOXYGEN_OUTPUT_DIR output_dir
          (replace DOXYGEN_INPUT_DIR input_dir (template ps)) =
        instantiate input_dir output_dir ps"
    using assms(6,7) by (rule replace_twice_instantiate)
  moreover have "encode (encoding pf) (instantiate input_dir output_dir ps) = Some bs'"
    using encode_instantiate[OF assms(8,9)] bs' by simp
  ultimately have "encode (encoding pf) (to_linesep (linesep pf)
      (replace DOXYGEN_OUTPUT_DIR output_dir
        (replace DOXYGEN_INPUT_DIR input_dir (template ps)))) = Some bs'"
    using assms(5) by (simp add: to_linesep_LF)
  from configureDoxyfile_writes[OF read assms(10,11) this] bs' show ?thesis
    by blast
qed

text \<open>
  Each condition is needed; the claim without them fails. First the templates in which
  two occurrences overlap: the input token with the output token overlapping its last
  \<^verbatim>\<open>@\<close>, where the output token stays half replaced, and the output token with the input
  token overlapping its last \<^verbatim>\<open>@\<close>, where the input token stays. Neither way of cutting
  such a template into pieces is marked. The other templates are marked sequences of
  pieces, and \<open>input_dir\<close> completes an output token: it lies inside the token
  (\<^verbatim>\<open>OUT\<close>, and the empty string), it holds the token, it ends with a beginning of the
  token, it begins with an end of the token; each time the second replacement takes
  literal text of the template for a token. Then the encoding and the newlines: a
  template with \<^verbatim>\<open>\r\n\<close>, written with \<^verbatim>\<open>\n\<close>; a platform with the line separator
  \<^verbatim>\<open>\r\n\<close>, where \<^verbatim>\<open>\n\<close> is written as \<^verbatim>\<open>\r\n\<close>; a template with the byte \<^verbatim>\<open>E9\<close>
  under the \<^verbatim>\<open>ascii\<close> codec, where the call raises \<^verbatim>\<open>UnicodeDecodeError\<close>; a template
  with the bytes \<^verbatim>\<open>FA 54\<close> under \<^verbatim>\<open>cp932\<close>, written as \<^verbatim>\<open>81 CA\<close>; and an \<open>input_dir\<close>
  or \<open>output_dir\<close> that \<^verbatim>\<open>ascii\<close> cannot encode, where the call raises
  \<^verbatim>\<open>UnicodeEncodeError\<close> and leaves \<^verbatim>\<open>Doxyfile\<close> empty.
\<close>

theorem configureDoxyfile_substitutes_tokens_counterexample:
  "\<not> marked [Input_token, Lit (str ''DOXYGEN_OUTPUT_DIR@'')] \<and>
   \<not> marked [Lit (str ''@DOXYGEN_INPUT_DIR''), Output_token] \<and>
   \<not> marked [Output_token, Lit (str ''DOXYGEN_INPUT_DIR@'')] \<and>
   \<not> marked [Lit (str ''@DOXYGEN_OUTPUT_DIR''), Input_token] \<and>
   marked [Lit (str ''@DOXYGEN_''), Input_token, Lit (str ''PUT_DIR@ ''), Output_token] \<and>
   marked [Lit (str ''@DOXYGEN_''), Input_token, Lit (str ''OUTPUT_DIR@ ''), Output_token] \<and>
   marked [Lit (str ''IN = ''), Input_token, Lit (str '' OUT = ''), Output_token] \<and>
   marked [Input_token, Lit (str ''OUTPUT_DIR@ ''), Output_token] \<and>
   marked [Lit (str ''@DOXYGEN_OUTPUT''), Input_token, Lit (str '' ''), Output_token] \<and>
   node_at (snd (configureDoxyfile (posix ascii) (str ''../include'') (str ''build'')
      (plain [''Doxyfile.in'' \<mapsto> File ''@DOXYGEN_INPUT_DIR@DOXYGEN_OUTPUT_DIR@''])))
     ''Doxyfile'' = Inr (Some (File ''../includeDOXYGEN_OUTPUT_DIR@'')) \<and>
   node_at (snd (configureDoxyfile (posix ascii) (str ''../include'') (str ''build'')
      (plain [''Doxyfile.in'' \<mapsto> File ''@DOXYGEN_OUTPUT_DIR@DOXYGEN_INPUT_DIR@''])))
     ''Doxyfile'' = Inr (Some (File ''@DOXYGEN_OUTPUT_DIR../include'')) \<and>
   node_at (snd (configureDoxyfile (posix ascii) (str ''OUT'') (str ''build'')
      (plain [''Doxyfile.in'' \<mapsto>
         File ''@DOXYGEN_@DOXYGEN_INPUT_DIR@PUT_DIR@ @DOXYGEN_OUTPUT_DIR@''])))
     ''Doxyfile'' = Inr (Some (File ''build build'')) \<and>
   node_at (snd (configureDoxyfile (posix ascii) [] (str ''build'')
      (plain [''Doxyfile.in'' \<mapsto>
         File ''@DOXYGEN_@DOXYGEN_INPUT_DIR@OUTPUT_DIR@ @DOXYGEN_OUTPUT_DIR@''])))
     ''Doxyfile'' = Inr (Some (File ''build build'')) \<and>
   node_at (snd (configureDoxyfile (posix ascii) (str ''@DOXYGEN_OUTPUT_DIR@/include'') (str ''build'')
      (plain [''Doxyfile.in'' \<mapsto>
         File ''IN = @DOXYGEN_INPUT_DIR@ OUT = @DOXYGEN_OUTPUT_DIR@''])))
     ''Doxyfile'' = Inr (Some (File ''IN = build/include OUT = build'')) \<and>
   node_at (snd (configureDoxyfile (posix ascii) (str ''x@DOXYGEN_'') (str ''build'')
      (plain [''Doxyfile.in'' \<mapsto>
         File ''@DOXYGEN_INPUT_DIR@OUTPUT_DIR@ @DOXYGEN_OUTPUT_DIR@''])))
     ''Doxyfile'' = Inr (Some (File ''xbuild build'')) \<and>
   node_at (snd (configureDoxyfile (posix ascii) (str ''_DIR@x'') (str ''build'')
      (plain [''Doxyfile.in'' \<mapsto>
         File ''@DOXYGEN_OUTPUT@DOXYGEN_INPUT_DIR@ @DOXYGEN_OUTPUT_DIR@''])))
     ''Doxyfile'' = Inr (Some (File ''buildx build'')) \<and>
   node_at (snd (configureDoxyfile (posix ascii) (str ''../include'') (str ''build'')
      (plain [''Doxyfile.in'' \<mapsto>
         File (''A'' @ [CHR 0x0D, CHR 0x0A] @ ''@DOXYGEN_INPUT_DIR@ @DOXYGEN_OUTPUT_DIR@'')])))
     ''Doxyfile'' = Inr (Some (File (''A'' @ [CHR 0x0A] @ ''../include build''))) \<and>
   node_at (snd (configureDoxyfile (windows ascii) (str ''../include'') (str ''build'')
      (plain [''Doxyfile.in'' \<mapsto>
         File (''A'' @ [CHR 0x0A] @ ''@DOXYGEN_INPUT_DIR@ @DOXYGEN_OUTPUT_DIR@'')])))
     ''Doxyfile'' = Inr (Some (File (''A'' @ [CHR 0x0D, CHR 0x0A] @ ''../include build''))) \<and>
   configureDoxyfile (posix ascii) (str ''../include'') (str ''build'')
      (plain [''Doxyfile.in'' \<mapsto>
         File ([CHR 0xE9] @ ''@DOXYGEN_INPUT_DIR@ @DOXYGEN_OUTPUT_DIR@'')]) =
     (Inl UnicodeDecodeError,
      plain [''Doxyfile.in'' \<mapsto>
         File ([CHR 0xE9] @ ''@DOXYGEN_INPUT_DIR@ @DOXYGEN_OUTPUT_DIR@'')]) \<and>
   node_at (snd (configureDoxyfile (posix cp932) (str ''../include'') (str ''build'')
      (plain [''Doxyfile.in'' \<mapsto>
         File ([CHR 0xFA, CHR 0x54] @ ''@DOXYGEN_INPUT_DIR@ @DOXYGEN_OUTPUT_DIR@'')])))
     ''Doxyfile'' = Inr (Some (File ([CHR 0x81, CHR 0xCA] @ ''../include build''))) \<and>
   fst (configureDoxyfile (posix ascii) [0xE9] (str ''build'')
      (plain [''Doxyfile.in'' \<mapsto> File ''@DOXYGEN_INPUT_DIR@ @DOXYGEN_OUTPUT_DIR@''])) =
     Inl UnicodeEncodeError \<and>
   node_at (snd (configureDoxyfile (posix ascii) [0xE9] (str ''build'')
      (plain [''Doxyfile.in'' \<mapsto> File ''@DOXYGEN_INPUT_DIR@ @DOXYGEN_OUTPUT_DIR@''])))
     ''Doxyfile'' = Inr (Some (File [])) \<and>
   fst (configureDoxyfile (posix ascii) (str ''../include'') [0xE9]
      (plain [''Doxyfile.in'' \<mapsto> File ''@DOXYGEN_INPUT_DIR@ @DOXYGEN_OUTPUT_DIR@''])) =
     Inl UnicodeEncodeError"
proof (intro conjI)
  show "\<not> marked [Input_token, Lit (str ''DOXYGEN_OUTPUT_DIR@'')]"
    by code_simp
  show "\<not> marked [Lit (str ''@DOXYGEN_INPUT_DIR''), Output_token]"
    by code_simp
  show "\<not> marked [Output_token, Lit (str ''DOXYGEN_INPUT_DIR@'')]"
    by code_simp
  show "\<not> marked [Lit (str ''@DOXYGEN_OUTPUT_DIR''), Input_token]"
    by code_simp
  show "marked [Lit (str ''@DOXYGEN_''), Input_token, Lit (str ''PUT_DIR@ ''), Output_token]"
    by code_simp
  show "marked [Lit (str ''@DOXYGEN_''), Input_token, Lit (str ''OUTPUT_DIR@ ''), Output_token]"
    by code_simp
  show "marked [Lit (str ''IN = ''), Input_token, Lit (str '' OUT = ''), Output_token]"
    by code_simp
  show "marked [Input_token, Lit (str ''OUTPUT_DIR@ ''), Output_token]"
    by code_simp
  show "marked [Lit (str ''@DOXYGEN_OUTPUT''), Input_token, Lit (str '' ''), Output_token]"
    by code_simp
qed (simp_all add: run)

theorem configureDoxyfile_substitutes_tokens_witness:
  "configureDoxyfile (posix ascii) (str ''../include'') (str ''build'')
     (plain [''Doxyfile.in'' \<mapsto>
        File ''INPUT = @DOXYGEN_INPUT_DIR@ OUTPUT_DIRECTORY = @DOXYGEN_OUTPUT_DIR@'']) =
   (Inr (),
    plain [''Doxyfile.in'' \<mapsto>
             File ''INPUT = @DOXYGEN_INPUT_DIR@ OUTPUT_DIRECTORY = @DOXYGEN_OUTPUT_DIR@'',
           ''Doxyfile'' \<mapsto> File ''INPUT = ../include OUTPUT_DIRECTORY = build'']) \<and>
   configureDoxyfile (posix ascii) (str ''../my_lib/include@'') (str ''@DOXYGEN_INPUT_DIR@'')
     (plain [''Doxyfile.in'' \<mapsto>
        File ''INPUT = @DOXYGEN_INPUT_DIR@ OUTPUT_DIRECTORY = @DOXYGEN_OUTPUT_DIR@'']) =
   (Inr (),
    plain [''Doxyfile.in'' \<mapsto>
             File ''INPUT = @DOXYGEN_INPUT_DIR@ OUTPUT_DIRECTORY = @DOXYGEN_OUTPUT_DIR@'',
           ''Doxyfile'' \<mapsto>
             File ''INPUT = ../my_lib/include@ OUTPUT_DIRECTORY = @DOXYGEN_INPUT_DIR@''])"
proof -
  let ?bs = "''INPUT = @DOXYGEN_INPUT_DIR@ OUTPUT_DIRECTORY = @DOXYGEN_OUTPUT_DIR@''"
  let ?ps = "[Lit (str ''INPUT = ''), Input_token, Lit (str '' OUTPUT_DIRECTORY = ''), Output_token]"
  let ?fsys = "plain [''Doxyfile.in'' \<mapsto> File ?bs]"
  have 1: "node_at ?fsys ''Doxyfile.in'' = Inr (Some (File ?bs))"
    by (simp add: node_at_def plain_def)
  have 2: "decode (encoding (posix ascii)) ?bs = Some (template ?ps)"
    by (simp add: posix_def ascii_def template_def str_def
        DOXYGEN_INPUT_DIR_def DOXYGEN_OUTPUT_DIR_def)
  have 3: "encode_pieces (encoding (posix ascii)) ''@DOXYGEN_INPUT_DIR@'' ''@DOXYGEN_OUTPUT_DIR@'' ?ps =
      Some ?bs"
    by (simp add: posix_def ascii_def str_def char_of_eq_iff)
  have 4: "CR \<notin> set (template ?ps)"
    by (simp add: template_def str_def DOXYGEN_INPUT_DIR_def DOXYGEN_OUTPUT_DIR_def)
  have 5: "linesep (posix ascii) = [LF]"
    by (simp add: posix_def)
  have 6: "marked ?ps"
    by code_simp
  have 8: "\<not> completes_output_token (str ''../include'')"
    by code_simp
  have 9: "encode (encoding (posix ascii)) (str ''../include'') = Some ''../include''"
    "encode (encoding (posix ascii)) (str ''build'') = Some ''build''"
    by (simp_all add: posix_def ascii_def str_def char_of_eq_iff)
  have 10: "denotes ?fsys Writing ''Doxyfile'' = Inr ''Doxyfile''"
    "contents ?fsys ''Doxyfile'' \<noteq> Some Dir"
    by (simp_all add: plain_def)
  have 11: "encode_pieces (encoding (posix ascii)) ''../include'' ''build'' ?ps =
      Some ''INPUT = ../include OUTPUT_DIRECTORY = build''"
    by (simp add: posix_def ascii_def str_def char_of_eq_iff)
  have 12: "\<not> completes_output_token (str ''../my_lib/include@'')"
    by code_simp
  have 13: "encode (encoding (posix ascii)) (str ''../my_lib/include@'') = Some ''../my_lib/include@''"
    "encode (encoding (posix ascii)) (str ''@DOXYGEN_INPUT_DIR@'') = Some ''@DOXYGEN_INPUT_DIR@''"
    by (simp_all add: posix_def ascii_def str_def char_of_eq_iff)
  have 14: "encode_pieces (encoding (posix ascii)) ''../my_lib/include@'' ''@DOXYGEN_INPUT_DIR@'' ?ps =
      Some ''INPUT = ../my_lib/include@ OUTPUT_DIRECTORY = @DOXYGEN_INPUT_DIR@''"
    by (simp add: posix_def ascii_def str_def char_of_eq_iff)
  from configureDoxyfile_substitutes_tokens[OF 1 2 3 4 5 6 8 9 10] 11 configureDoxyfile_substitutes_tokens[OF 1 2 3 4 5 6 12 13 10] 14 show ?thesis
    by (simp add: plain_def)
qed




text \<open>
  Claim C7. When the template can be decoded and its text holds neither token,
  \<^verbatim>\<open>configureDoxyfile\<close> writes that text, whatever the two arguments are: the decoded
  template with its newlines translated on reading and on writing, encoded again; the
  call returns \<^verbatim>\<open>None\<close>, unless the text cannot be encoded. The written bytes are the
  bytes of the template when the template holds no carriage return, the line separator
  of the platform is \<^verbatim>\<open>\n\<close>, and encoding the decoded template gives its bytes back.
\<close>

theorem configureDoxyfile_identity_without_tokens:
  assumes "node_at fsys ''Doxyfile.in'' = Inr (Some (File bs))"
    and "decode (encoding pf) bs = Some t"
    and "\<not> contains DOXYGEN_INPUT_DIR t" and "\<not> contains DOXYGEN_OUTPUT_DIR t"
    and "denotes fsys Writing ''Doxyfile'' = Inr f" and "contents fsys f \<noteq> Some Dir"
  shows "(case encode (encoding pf) (to_linesep (linesep pf) (universal_newlines t)) of
            None \<Rightarrow>
              configureDoxyfile pf input_dir output_dir fsys =
                (Inl UnicodeEncodeError, fsys\<lparr>contents := (contents fsys)(f \<mapsto> File [])\<rparr>)
          | Some bs' \<Rightarrow>
              configureDoxyfile pf input_dir output_dir fsys =
                (Inr (), fsys\<lparr>contents := (contents fsys)(f \<mapsto> File bs')\<rparr>)) \<and>
         (CR \<notin> set t \<and> linesep pf = [LF] \<and> encode (encoding pf) t = Some bs \<longrightarrow>
            configureDoxyfile pf input_dir output_dir fsys =
              (Inr (), fsys\<lparr>contents := (contents fsys)(f \<mapsto> File bs)\<rparr>))"
proof -
  let ?t = "universal_newlines t"
  have read: "open_read pf ''Doxyfile.in'' fsys = Inr ?t"
    using assms(1,2) by (rule open_read_file)
  have same: "replace DOXYGEN_OUTPUT_DIR output_dir (replace DOXYGEN_INPUT_DIR input_dir ?t) = ?t"
    using assms(3,4) by (simp add: replace_absent token_free_read)
  have 1: "configureDoxyfile pf input_dir output_dir fsys =
      (Inr (), fsys\<lparr>contents := (contents fsys)(f \<mapsto> File bs')\<rparr>)"
    if "encode (encoding pf) (to_linesep (linesep pf) ?t) = Some bs'" for bs'
    using configureDoxyfile_writes[OF read assms(5,6), of output_dir input_dir bs'] that same
    by simp
  have 2: "configureDoxyfile pf input_dir output_dir fsys =
      (Inl UnicodeEncodeError, fsys\<lparr>contents := (contents fsys)(f \<mapsto> File [])\<rparr>)"
    if "encode (encoding pf) (to_linesep (linesep pf) ?t) = None"
    using configureDoxyfile_encode_fails[OF read assms(5,6), of output_dir input_dir] that same
    by simp
  have 3: "configureDoxyfile pf input_dir output_dir fsys =
      (Inr (), fsys\<lparr>contents := (contents fsys)(f \<mapsto> File bs)\<rparr>)"
    if "CR \<notin> set t \<and> linesep pf = [LF] \<and> encode (encoding pf) t = Some bs"
    using that 1[of bs] by (simp add: universal_newlines_id to_linesep_LF)
  from 1 2 3 show ?thesis
    by (simp split: option.splits)
qed

text \<open>
  The claim as stated fails: the copy is not byte-identical in general. The template
  \<^verbatim>\<open>A\r\nB\<close> holds neither token and is written as \<^verbatim>\<open>A\nB\<close> where the line separator
  is \<^verbatim>\<open>\n\<close>; the template \<^verbatim>\<open>A\nB\<close> is written as \<^verbatim>\<open>A\r\nB\<close> where the line separator
  is \<^verbatim>\<open>\r\n\<close>; a template with the byte \<^verbatim>\<open>E9\<close> is not copied at all under the
  \<^verbatim>\<open>ascii\<close> codec: the call raises \<^verbatim>\<open>UnicodeDecodeError\<close>; and under \<^verbatim>\<open>cp932\<close> the
  bytes \<^verbatim>\<open>FA 54\<close> of a template are written as \<^verbatim>\<open>81 CA\<close>.
\<close>

theorem configureDoxyfile_identity_without_tokens_counterexample:
  "\<not> contains DOXYGEN_INPUT_DIR (str (''A'' @ [CHR 0x0D, CHR 0x0A] @ ''B'')) \<and>
   \<not> contains DOXYGEN_OUTPUT_DIR (str (''A'' @ [CHR 0x0D, CHR 0x0A] @ ''B'')) \<and>
   node_at (snd (configureDoxyfile (posix ascii) (str ''../include'') (str ''build'')
      (plain [''Doxyfile.in'' \<mapsto> File (''A'' @ [CHR 0x0D, CHR 0x0A] @ ''B'')])))
     ''Doxyfile'' = Inr (Some (File (''A'' @ [CHR 0x0A] @ ''B''))) \<and>
   node_at (snd (configureDoxyfile (windows ascii) (str ''../include'') (str ''build'')
      (plain [''Doxyfile.in'' \<mapsto> File (''A'' @ [CHR 0x0A] @ ''B'')])))
     ''Doxyfile'' = Inr (Some (File (''A'' @ [CHR 0x0D, CHR 0x0A] @ ''B''))) \<and>
   configureDoxyfile (posix ascii) (str ''../include'') (str ''build'')
      (plain [''Doxyfile.in'' \<mapsto> File (''caf'' @ [CHR 0xE9])]) =
     (Inl UnicodeDecodeError, plain [''Doxyfile.in'' \<mapsto> File (''caf'' @ [CHR 0xE9])]) \<and>
   node_at (snd (configureDoxyfile (posix cp932) (str ''../include'') (str ''build'')
      (plain [''Doxyfile.in'' \<mapsto> File (''A'' @ [CHR 0xFA, CHR 0x54] @ ''B'')])))
     ''Doxyfile'' = Inr (Some (File (''A'' @ [CHR 0x81, CHR 0xCA] @ ''B'')))"
  by (simp add: run)

theorem configureDoxyfile_identity_without_tokens_witness:
  "configureDoxyfile (posix ascii) (str ''../include'') (str ''build'')
     (plain [''Doxyfile.in'' \<mapsto> File (''GENERATE_XML = YES'' @ [CHR 0x0A])]) =
   (Inr (), plain [''Doxyfile.in'' \<mapsto> File (''GENERATE_XML = YES'' @ [CHR 0x0A]),
                   ''Doxyfile'' \<mapsto> File (''GENERATE_XML = YES'' @ [CHR 0x0A])])"
proof -
  let ?bs = "''GENERATE_XML = YES'' @ [CHR 0x0A]"
  let ?fsys = "plain [''Doxyfile.in'' \<mapsto> File ?bs]"
  have 1: "node_at ?fsys ''Doxyfile.in'' = Inr (Some (File ?bs))"
    by (simp add: node_at_def plain_def)
  have 2: "decode (encoding (posix ascii)) ?bs = Some (str ?bs)"
    by (simp add: posix_def decode_ascii)
  have 3: "\<not> contains DOXYGEN_INPUT_DIR (str ?bs)" "\<not> contains DOXYGEN_OUTPUT_DIR (str ?bs)"
    by (simp_all add: str_def DOXYGEN_INPUT_DIR_def DOXYGEN_OUTPUT_DIR_def)
  have 4: "denotes ?fsys Writing ''Doxyfile'' = Inr ''Doxyfile''"
    "contents ?fsys ''Doxyfile'' \<noteq> Some Dir"
    by (simp_all add: plain_def)
  have 5: "CR \<notin> set (str ?bs) \<and> linesep (posix ascii) = [LF] \<and>
      encode (encoding (posix ascii)) (str ?bs) = Some ?bs"
    by (simp add: posix_def ascii_def str_def char_of_eq_iff)
  from configureDoxyfile_identity_without_tokens[OF 1 2 3 4, of "str ''../include''" "str ''build''", THEN conjunct2] 5 show ?thesis
    by (simp add: plain_def)
qed

text \<open>
  Claim C9. The written text is the result of the two replacements in sequence, the input
  token first; and the order matters. With \<open>input_dir = '@DOXYGEN_OUTPUT_DIR@/include'\<close>
  and the template \<^verbatim>\<open>INPUT = @DOXYGEN_INPUT_DIR@\<close>, which holds no output token of its own,
  the token that the first replacement brings in is replaced by \<open>output_dir\<close> in the
  written file, for every \<open>output_dir\<close>; in the other order \<open>input_dir\<close> would stand
  there unchanged.
\<close>

theorem configureDoxyfile_sequential:
  "(\<forall>pf fsys t input_dir output_dir f bs.
      open_read pf ''Doxyfile.in'' fsys = Inr t \<and>
      denotes fsys Writing ''Doxyfile'' = Inr f \<and> contents fsys f \<noteq> Some Dir \<and>
      encode (encoding pf) (to_linesep (linesep pf)
        (replace DOXYGEN_OUTPUT_DIR output_dir (replace DOXYGEN_INPUT_DIR input_dir t))) =
        Some bs \<longrightarrow>
      configureDoxyfile pf input_dir output_dir fsys =
        (Inr (), fsys\<lparr>contents := (contents fsys)(f \<mapsto> File bs)\<rparr>)) \<and>
   (\<exists>input_dir t. contains DOXYGEN_OUTPUT_DIR input_dir \<and> \<not> contains DOXYGEN_OUTPUT_DIR (str t) \<and>
      (\<forall>output_dir.
         node_at (snd (configureDoxyfile (posix latin1) input_dir (str output_dir)
                         (plain [''Doxyfile.in'' \<mapsto> File t]))) ''Doxyfile'' =
           Inr (Some (File (''INPUT = '' @ output_dir @ ''/include''))) \<and>
         replace DOXYGEN_INPUT_DIR input_dir (replace DOXYGEN_OUTPUT_DIR (str output_dir) (str t)) =
           str ''INPUT = '' @ input_dir))"
proof (intro conjI allI impI)
  fix pf fsys t input_dir output_dir f bs
  assume "open_read pf ''Doxyfile.in'' fsys = Inr t \<and>
      denotes fsys Writing ''Doxyfile'' = Inr f \<and> contents fsys f \<noteq> Some Dir \<and>
      encode (encoding pf) (to_linesep (linesep pf)
        (replace DOXYGEN_OUTPUT_DIR output_dir (replace DOXYGEN_INPUT_DIR input_dir t))) =
        Some bs"
  then show "configureDoxyfile pf input_dir output_dir fsys =
        (Inr (), fsys\<lparr>contents := (contents fsys)(f \<mapsto> File bs)\<rparr>)"
    using configureDoxyfile_writes by blast
next
  let ?i = "str ''@DOXYGEN_OUTPUT_DIR@/include''"
  let ?t = "''INPUT = @DOXYGEN_INPUT_DIR@''"
  have a: "contains DOXYGEN_OUTPUT_DIR ?i" and b: "\<not> contains DOXYGEN_OUTPUT_DIR (str ?t)"
    by (simp_all add: DOXYGEN_OUTPUT_DIR_def str_def)
  have two: "replace DOXYGEN_OUTPUT_DIR (str output_dir)
               (replace DOXYGEN_INPUT_DIR ?i (universal_newlines (str ?t))) =
             str (''INPUT = '' @ output_dir @ ''/include'')" for output_dir
    by (simp add: DOXYGEN_INPUT_DIR_def DOXYGEN_OUTPUT_DIR_def str_def)
  have c: "node_at (snd (configureDoxyfile (posix latin1) ?i (str output_dir)
                         (plain [''Doxyfile.in'' \<mapsto> File ?t]))) ''Doxyfile'' =
           Inr (Some (File (''INPUT = '' @ output_dir @ ''/include'')))" for output_dir
  proof -
    let ?fsys = "plain [''Doxyfile.in'' \<mapsto> File ?t]"
    have r: "open_read (posix latin1) ''Doxyfile.in'' ?fsys = Inr (universal_newlines (str ?t))"
      by (rule open_read_file) (simp_all add: node_at_def plain_def posix_def decode_latin1)
    have w: "denotes ?fsys Writing ''Doxyfile'' = Inr ''Doxyfile''"
      "contents ?fsys ''Doxyfile'' \<noteq> Some Dir"
      by (simp_all add: plain_def)
    have e: "encode (encoding (posix latin1)) (to_linesep (linesep (posix latin1))
        (replace DOXYGEN_OUTPUT_DIR (str output_dir)
          (replace DOXYGEN_INPUT_DIR ?i (universal_newlines (str ?t))))) =
        Some (''INPUT = '' @ output_dir @ ''/include'')"
      unfolding two by (simp add: posix_def to_linesep_LF encode_latin1)
    show ?thesis
      unfolding configureDoxyfile_writes[OF r w e] by (simp add: node_at_def plain_def)
  qed
  have d: "replace DOXYGEN_INPUT_DIR ?i (replace DOXYGEN_OUTPUT_DIR (str output_dir) (str ?t)) =
           str ''INPUT = '' @ ?i" for output_dir
    by (simp add: DOXYGEN_INPUT_DIR_def DOXYGEN_OUTPUT_DIR_def str_def)
  from a b c d show "\<exists>input_dir t.
      contains DOXYGEN_OUTPUT_DIR input_dir \<and> \<not> contains DOXYGEN_OUTPUT_DIR (str t) \<and>
      (\<forall>output_dir.
         node_at (snd (configureDoxyfile (posix latin1) input_dir (str output_dir)
                         (plain [''Doxyfile.in'' \<mapsto> File t]))) ''Doxyfile'' =
           Inr (Some (File (''INPUT = '' @ output_dir @ ''/include''))) \<and>
         replace DOXYGEN_INPUT_DIR input_dir (replace DOXYGEN_OUTPUT_DIR (str output_dir) (str t)) =
           str ''INPUT = '' @ input_dir)"
    by blast
qed

theorem configureDoxyfile_sequential_witness:
  "node_at (snd (configureDoxyfile (posix ascii) (str ''@DOXYGEN_OUTPUT_DIR@/include'')
      (str ''build'') (plain [''Doxyfile.in'' \<mapsto> File ''INPUT = @DOXYGEN_INPUT_DIR@''])))
     ''Doxyfile'' = Inr (Some (File ''INPUT = build/include''))"
proof -
  let ?fsys = "plain [''Doxyfile.in'' \<mapsto> File ''INPUT = @DOXYGEN_INPUT_DIR@'']"
  have h: "open_read (posix ascii) ''Doxyfile.in'' ?fsys = Inr (str ''INPUT = @DOXYGEN_INPUT_DIR@'') \<and>
      denotes ?fsys Writing ''Doxyfile'' = Inr ''Doxyfile'' \<and>
      contents ?fsys ''Doxyfile'' \<noteq> Some Dir \<and>
      encode (encoding (posix ascii)) (to_linesep (linesep (posix ascii))
        (replace DOXYGEN_OUTPUT_DIR (str ''build'')
          (replace DOXYGEN_INPUT_DIR (str ''@DOXYGEN_OUTPUT_DIR@/include'')
            (str ''INPUT = @DOXYGEN_INPUT_DIR@'')))) =
        Some ''INPUT = build/include''"
    by (simp add: run)
  from configureDoxyfile_sequential[THEN conjunct1, rule_format, OF h] show ?thesis
    by (simp add: node_at_def plain_def)
qed




section \<open>The claims about the script\<close>

text \<open>
  Claim C2. On Read the Docs the body of the branch does register \<^verbatim>\<open>build/xml\<close> after
  it has instantiated the template and called \<^verbatim>\<open>doxygen\<close>; but the script goes on, and
  line 86 assigns \<^verbatim>\<open>../build/docs/doxygen/xml\<close> to the same key. At the end of the script,
  which is when Sphinx reads the configuration, the registered path is not \<^verbatim>\<open>build/xml\<close>.
\<close>

theorem conf_py_rtd_registration_overwritten:
  "registered (rtd_branch (posix ascii) (doxygen_exit 0)
                 [''read_the_docs_build'' \<mapsto> VBool True, ''breathe_projects'' \<mapsto> VDict []]
                 (directory_with ''OUTPUT_DIRECTORY = @DOXYGEN_OUTPUT_DIR@'')) =
     Some (VStr ''build/xml'') \<and>
   registered (conf_py (posix ascii) [''READTHEDOCS'' \<mapsto> ''True''] (doxygen_exit 0)
                 (directory_with ''OUTPUT_DIRECTORY = @DOXYGEN_OUTPUT_DIR@'')) =
     Some (VStr ''../build/docs/doxygen/xml'') \<and>
   trace (snd (conf_py (posix ascii) [''READTHEDOCS'' \<mapsto> ''True''] (doxygen_exit 0)
                 (directory_with ''OUTPUT_DIRECTORY = @DOXYGEN_OUTPUT_DIR@''))) =
     [Call_configureDoxyfile ''../include'' ''build'', Call_subprocess ''doxygen'']"
proof -
  let ?w = "directory_with ''OUTPUT_DIRECTORY = @DOXYGEN_OUTPUT_DIR@''"
  obtain fsys' where c: "configureDoxyfile (posix ascii) (str ''../include'') (str ''build'')
      (files ?w) = (Inr (), fsys')"
    by (simp add: run directory_with_def)
  have b: "[''read_the_docs_build'' \<mapsto> VBool True, ''breathe_projects'' \<mapsto> VDict []]
      ''breathe_projects'' = Some (VDict [])"
    by simp
  have "registered (rtd_branch (posix ascii) (doxygen_exit 0)
                 [''read_the_docs_build'' \<mapsto> VBool True, ''breathe_projects'' \<mapsto> VDict []] ?w) =
     Some (VStr ''build/xml'')"
    using rtd_branch_returns[of "posix ascii" ?w "()" fsys'
        "[''read_the_docs_build'' \<mapsto> VBool True, ''breathe_projects'' \<mapsto> VDict []]" "[]"
        "doxygen_exit 0"] c b
    by (simp add: registered_def getitem_def)
  moreover have "trace ?w = []"
    by (simp add: directory_with_def)
  ultimately show ?thesis
    using conf_py_rtd_returns[of "[''READTHEDOCS'' \<mapsto> ''True'']" "posix ascii" ?w "()" fsys'
        "doxygen_exit 0"] c
    by simp
qed

text \<open>
  Claim C3. When \<^verbatim>\<open>READTHEDOCS\<close> is unset, or set to anything but the string \<^verbatim>\<open>True\<close>,
  the script touches no file and makes no call (the world is unchanged), and it registers
  \<^verbatim>\<open>../build/docs/doxygen/xml\<close>.
\<close>

theorem conf_py_without_readthedocs:
  assumes "env ''READTHEDOCS'' \<noteq> Some ''True''"
  shows "snd (conf_py pf env sh w) = w \<and>
         registered (conf_py pf env sh w) = Some (VStr ''../build/docs/doxygen/xml'')"
  using assms by (rule conf_py_elsewhere_registered)

theorem conf_py_without_readthedocs_witness:
  "snd (conf_py (posix ascii) Map.empty (doxygen_exit 0) \<lparr>files = plain Map.empty, trace = []\<rparr>) =
     \<lparr>files = plain Map.empty, trace = []\<rparr> \<and>
   registered (conf_py (posix ascii) Map.empty (doxygen_exit 0)
                 \<lparr>files = plain Map.empty, trace = []\<rparr>) =
     Some (VStr ''../build/docs/doxygen/xml'') \<and>
   snd (conf_py (posix ascii) [''READTHEDOCS'' \<mapsto> ''true''] (doxygen_exit 0)
          (directory_with ''GENERATE_XML = YES'')) =
     directory_with ''GENERATE_XML = YES'' \<and>
   registered (conf_py (posix ascii) [''READTHEDOCS'' \<mapsto> ''true''] (doxygen_exit 0)
                 (directory_with ''GENERATE_XML = YES'')) =
     Some (VStr ''../build/docs/doxygen/xml'')"
  using conf_py_without_readthedocs[of Map.empty "posix ascii" "doxygen_exit 0" "\<lparr>files = plain Map.empty, trace = []\<rparr>"]
    conf_py_without_readthedocs[of "[''READTHEDOCS'' \<mapsto> ''true'']" "posix ascii" "doxygen_exit 0"
      "directory_with ''GENERATE_XML = YES''"]
  by simp

text \<open>
  Claim C4. The exit status of \<^verbatim>\<open>doxygen\<close> is not looked at: two shells that leave the
  same files behind and differ in the status they give make the script end in the same
  way, with the same namespace and the same world.
\<close>

theorem conf_py_ignores_exit_status:
  assumes "\<forall>cmd fsys. snd (sh1 cmd fsys) = snd (sh2 cmd fsys)"
  shows "conf_py pf env sh1 w = conf_py pf env sh2 w"
proof -
  have "rtd_branch pf sh1 ns w = rtd_branch pf sh2 ns w" for ns
    using assms by (simp add: rtd_branch_def Let_def split: prod.splits sum.splits)
  then show ?thesis
    by (simp add: conf_py_def Let_def)
qed

theorem conf_py_ignores_exit_status_witness:
  "fst (doxygen_exit 0 ''doxygen'' (plain Map.empty)) \<noteq>
     fst (doxygen_exit 1 ''doxygen'' (plain Map.empty)) \<and>
   conf_py (posix ascii) [''READTHEDOCS'' \<mapsto> ''True''] (doxygen_exit 0)
     (directory_with ''GENERATE_XML = YES'') =
   conf_py (posix ascii) [''READTHEDOCS'' \<mapsto> ''True''] (doxygen_exit 1)
     (directory_with ''GENERATE_XML = YES'')"
  using conf_py_ignores_exit_status[of "doxygen_exit 0" "doxygen_exit 1" "posix ascii"
      "[''READTHEDOCS'' \<mapsto> ''True'']" "directory_with ''GENERATE_XML = YES''"]
  by (simp add: doxygen_exit_def)

text \<open>
  Claim C5. On Read the Docs, an exception of \<^verbatim>\<open>configureDoxyfile\<close> ends the script
  there, before \<^verbatim>\<open>doxygen\<close> is called: \<^verbatim>\<open>FileNotFoundError\<close> when \<^verbatim>\<open>Doxyfile.in\<close> is
  missing; \<^verbatim>\<open>IsADirectoryError\<close> when it is a directory, or when it can be read and
  \<^verbatim>\<open>Doxyfile\<close> is a directory; the error of the lookup when one of the two paths cannot
  be followed; \<^verbatim>\<open>UnicodeDecodeError\<close> when the template cannot be decoded;
  \<^verbatim>\<open>UnicodeEncodeError\<close> when the instantiated text cannot be encoded; and whatever else
  the call raises. When the template can be read and the text written, the script
  raises nothing and calls \<^verbatim>\<open>doxygen\<close>, whatever the template holds and whatever
  \<^verbatim>\<open>doxygen\<close> does.
\<close>

theorem conf_py_failures:
  assumes "env ''READTHEDOCS'' = Some ''True''"
  shows "(node_at (files w) ''Doxyfile.in'' = Inr None \<longrightarrow>
            conf_py pf env sh w =
              (Inl (OSError FileNotFoundError),
               w\<lparr>trace := trace w @ [Call_configureDoxyfile ''../include'' ''build'']\<rparr>)) \<and>
         (node_at (files w) ''Doxyfile.in'' = Inr (Some Dir) \<or>
          (\<exists>t. open_read pf ''Doxyfile.in'' (files w) = Inr t) \<and>
          (\<exists>f. denotes (files w) Writing ''Doxyfile'' = Inr f \<and>
               contents (files w) f = Some Dir) \<longrightarrow>
            conf_py pf env sh w =
              (Inl (OSError IsADirectoryError),
               w\<lparr>trace := trace w @ [Call_configureDoxyfile ''../include'' ''build'']\<rparr>)) \<and>
         (\<forall>e. node_at (files w) ''Doxyfile.in'' = Inl e \<or>
              (\<exists>t. open_read pf ''Doxyfile.in'' (files w) = Inr t) \<and>
              denotes (files w) Writing ''Doxyfile'' = Inl e \<longrightarrow>
            conf_py pf env sh w =
              (Inl (OSError e),
               w\<lparr>trace := trace w @ [Call_configureDoxyfile ''../include'' ''build'']\<rparr>)) \<and>
         ((\<exists>bs. node_at (files w) ''Doxyfile.in'' = Inr (Some (File bs)) \<and>
                decode (encoding pf) bs = None) \<longrightarrow>
            conf_py pf env sh w =
              (Inl UnicodeDecodeError,
               w\<lparr>trace := trace w @ [Call_configureDoxyfile ''../include'' ''build'']\<rparr>)) \<and>
         (\<forall>e fsys'. configureDoxyfile pf (str ''../include'') (str ''build'') (files w) =
                      (Inl e, fsys') \<longrightarrow>
            conf_py pf env sh w =
              (Inl e,
               w\<lparr>files := fsys',
                  trace := trace w @ [Call_configureDoxyfile ''../include'' ''build'']\<rparr>)) \<and>
         (\<forall>t f. open_read pf ''Doxyfile.in'' (files w) = Inr t \<and>
                denotes (files w) Writing ''Doxyfile'' = Inr f \<and>
                contents (files w) f \<noteq> Some Dir \<longrightarrow>
            (case encode (encoding pf) (to_linesep (linesep pf)
                    (replace DOXYGEN_OUTPUT_DIR (str ''build'')
                       (replace DOXYGEN_INPUT_DIR (str ''../include'') t))) of
               None \<Rightarrow>
                 raised (conf_py pf env sh w) = Some UnicodeEncodeError \<and>
                 trace (snd (conf_py pf env sh w)) =
                   trace w @ [Call_configureDoxyfile ''../include'' ''build'']
             | Some bs \<Rightarrow>
                 raised (conf_py pf env sh w) = None \<and>
                 trace (snd (conf_py pf env sh w)) =
                   trace w @
                   [Call_configureDoxyfile ''../include'' ''build'',
                    Call_subprocess ''doxygen'']))"
proof (intro conjI impI allI)
  let ?c = "configureDoxyfile pf (str ''../include'') (str ''build'') (files w)"
  let ?tr = "trace w @ [Call_configureDoxyfile ''../include'' ''build'']"
  have raises: "conf_py pf env sh w = (Inl e, w\<lparr>trace := ?tr\<rparr>)" if "?c = (Inl e, files w)" for e
    using conf_py_rtd_raises[of env pf w e "files w" sh] assms that by simp
  {
    assume "node_at (files w) ''Doxyfile.in'' = Inr None"
    then have "?c = (Inl (OSError FileNotFoundError), files w)"
      by (simp add: configureDoxyfile_def open_read_node_at)
    then show "conf_py pf env sh w = (Inl (OSError FileNotFoundError), w\<lparr>trace := ?tr\<rparr>)"
      by (rule raises)
  next
    assume "node_at (files w) ''Doxyfile.in'' = Inr (Some Dir) \<or>
          (\<exists>t. open_read pf ''Doxyfile.in'' (files w) = Inr t) \<and>
          (\<exists>f. denotes (files w) Writing ''Doxyfile'' = Inr f \<and>
               contents (files w) f = Some Dir)"
    then have "?c = (Inl (OSError IsADirectoryError), files w)"
    proof
      assume "node_at (files w) ''Doxyfile.in'' = Inr (Some Dir)"
      then show ?thesis
        by (simp add: configureDoxyfile_def open_read_node_at)
    next
      assume "(\<exists>t. open_read pf ''Doxyfile.in'' (files w) = Inr t) \<and>
          (\<exists>f. denotes (files w) Writing ''Doxyfile'' = Inr f \<and>
               contents (files w) f = Some Dir)"
      then show ?thesis
        using configureDoxyfile_write_fails[of pf "files w" _ IsADirectoryError] by blast
    qed
    then show "conf_py pf env sh w = (Inl (OSError IsADirectoryError), w\<lparr>trace := ?tr\<rparr>)"
      by (rule raises)
  next
    fix e
    assume "node_at (files w) ''Doxyfile.in'' = Inl e \<or>
              (\<exists>t. open_read pf ''Doxyfile.in'' (files w) = Inr t) \<and>
              denotes (files w) Writing ''Doxyfile'' = Inl e"
    then have "?c = (Inl (OSError e), files w)"
    proof
      assume "node_at (files w) ''Doxyfile.in'' = Inl e"
      then show ?thesis
        by (simp add: configureDoxyfile_def open_read_node_at)
    next
      assume "(\<exists>t. open_read pf ''Doxyfile.in'' (files w) = Inr t) \<and>
              denotes (files w) Writing ''Doxyfile'' = Inl e"
      then show ?thesis
        using configureDoxyfile_write_fails[of pf "files w" _ e] by blast
    qed
    then show "conf_py pf env sh w = (Inl (OSError e), w\<lparr>trace := ?tr\<rparr>)"
      by (rule raises)
  next
    assume "\<exists>bs. node_at (files w) ''Doxyfile.in'' = Inr (Some (File bs)) \<and>
                decode (encoding pf) bs = None"
    then have "?c = (Inl UnicodeDecodeError, files w)"
      by (auto simp: configureDoxyfile_def open_read_node_at)
    then show "conf_py pf env sh w = (Inl UnicodeDecodeError, w\<lparr>trace := ?tr\<rparr>)"
      by (rule raises)
  next
    fix e fsys'
    assume "?c = (Inl e, fsys')"
    then show "conf_py pf env sh w = (Inl e, w\<lparr>files := fsys', trace := ?tr\<rparr>)"
      using conf_py_rtd_raises[of env pf w e fsys' sh] assms by simp
  next
    fix t f
    let ?t' = "to_linesep (linesep pf)
                    (replace DOXYGEN_OUTPUT_DIR (str ''build'')
                       (replace DOXYGEN_INPUT_DIR (str ''../include'') t))"
    assume a: "open_read pf ''Doxyfile.in'' (files w) = Inr t \<and>
                denotes (files w) Writing ''Doxyfile'' = Inr f \<and>
                contents (files w) f \<noteq> Some Dir"
    show "case encode (encoding pf) ?t' of
               None \<Rightarrow>
                 raised (conf_py pf env sh w) = Some UnicodeEncodeError \<and>
                 trace (snd (conf_py pf env sh w)) = ?tr
             | Some bs \<Rightarrow>
                 raised (conf_py pf env sh w) = None \<and>
                 trace (snd (conf_py pf env sh w)) =
                   trace w @
                   [Call_configureDoxyfile ''../include'' ''build'',
                    Call_subprocess ''doxygen'']"
    proof (cases "encode (encoding pf) ?t'")
      case None
      with a have "?c = (Inl UnicodeEncodeError,
          (files w)\<lparr>contents := (contents (files w))(f \<mapsto> File [])\<rparr>)"
        by (auto simp: configureDoxyfile_def open_write_def Let_def split: option.splits node.splits)
      with None show ?thesis
        using conf_py_rtd_raises[of env pf w UnicodeEncodeError _ sh] assms
        by (simp add: raised_def)
    next
      case (Some bs)
      with a have "?c = (Inr (), (files w)\<lparr>contents := (contents (files w))(f \<mapsto> File bs)\<rparr>)"
        by (auto simp: configureDoxyfile_def open_write_def Let_def split: option.splits node.splits)
      with Some show ?thesis
        using conf_py_rtd_returns[of env pf w "()" _ sh] assms
        by simp
    qed
  }
qed

text \<open>
  The claim as stated fails: with a template that holds neither token and a \<^verbatim>\<open>doxygen\<close>
  that exits with status 2, the script on Read the Docs raises nothing and runs to its
  end. The template is copied to \<^verbatim>\<open>Doxyfile\<close> as it is.
\<close>

theorem conf_py_failures_counterexample:
  "\<not> contains DOXYGEN_INPUT_DIR (str ''GENERATE_XML = YES'') \<and>
   \<not> contains DOXYGEN_OUTPUT_DIR (str ''GENERATE_XML = YES'') \<and>
   fst (doxygen_exit 2 ''doxygen''
          (snd (configureDoxyfile (posix ascii) (str ''../include'') (str ''build'')
                  (plain [''Doxyfile.in'' \<mapsto> File ''GENERATE_XML = YES''])))) = 2 \<and>
   raised (conf_py (posix ascii) [''READTHEDOCS'' \<mapsto> ''True''] (doxygen_exit 2)
             (directory_with ''GENERATE_XML = YES'')) = None \<and>
   trace (snd (conf_py (posix ascii) [''READTHEDOCS'' \<mapsto> ''True''] (doxygen_exit 2)
             (directory_with ''GENERATE_XML = YES''))) =
     [Call_configureDoxyfile ''../include'' ''build'', Call_subprocess ''doxygen''] \<and>
   node_at (files (snd (conf_py (posix ascii) [''READTHEDOCS'' \<mapsto> ''True''] (doxygen_exit 2)
             (directory_with ''GENERATE_XML = YES'')))) ''Doxyfile'' =
     Inr (Some (File ''GENERATE_XML = YES''))"
proof -
  let ?w = "directory_with ''GENERATE_XML = YES''"
  have c: "configureDoxyfile (posix ascii) (str ''../include'') (str ''build'') (files ?w) =
      (Inr (), snd (configureDoxyfile (posix ascii) (str ''../include'') (str ''build'') (files ?w)))"
    by (simp add: run directory_with_def)
  have n: "node_at (snd (configureDoxyfile (posix ascii) (str ''../include'') (str ''build'')
      (files ?w))) ''Doxyfile'' = Inr (Some (File ''GENERATE_XML = YES''))"
    by (simp add: run directory_with_def)
  have t: "trace ?w = []"
    by (simp add: directory_with_def)
  have s: "\<not> contains DOXYGEN_INPUT_DIR (str ''GENERATE_XML = YES'') \<and>
   \<not> contains DOXYGEN_OUTPUT_DIR (str ''GENERATE_XML = YES'')"
    by (simp add: str_def DOXYGEN_INPUT_DIR_def DOXYGEN_OUTPUT_DIR_def)
  show ?thesis
    using conf_py_rtd_returns[of "[''READTHEDOCS'' \<mapsto> ''True'']" "posix ascii" ?w "()" _
        "doxygen_exit 2"] c n t s
    by (simp add: doxygen_exit_def node_at_def)
qed

theorem conf_py_failures_witness:
  "raised (conf_py (posix ascii) [''READTHEDOCS'' \<mapsto> ''True''] (doxygen_exit 0)
             \<lparr>files = plain Map.empty, trace = []\<rparr>) =
     Some (OSError FileNotFoundError) \<and>
   raised (conf_py (posix ascii) [''READTHEDOCS'' \<mapsto> ''True''] (doxygen_exit 0)
             \<lparr>files = plain [''Doxyfile.in'' \<mapsto> File ''GENERATE_XML = YES'', ''Doxyfile'' \<mapsto> Dir],
              trace = []\<rparr>) =
     Some (OSError IsADirectoryError) \<and>
   raised (conf_py (posix ascii) [''READTHEDOCS'' \<mapsto> ''True''] (doxygen_exit 0)
             \<lparr>files = plain [''Doxyfile.in'' \<mapsto> File [CHR ''c'', CHR ''a'', CHR ''f'', CHR 0xE9]],
              trace = []\<rparr>) =
     Some UnicodeDecodeError \<and>
   raised (conf_py (posix ascii) [''READTHEDOCS'' \<mapsto> ''True''] (doxygen_exit 0)
             \<lparr>files = link ''Doxyfile'' ''Doxyfile.in''
                        (plain [''Doxyfile.in'' \<mapsto> File [CHR ''c'', CHR ''a'', CHR ''f'', CHR 0xE9]]),
              trace = []\<rparr>) =
     Some UnicodeDecodeError \<and>
   raised (conf_py (posix ascii) [''READTHEDOCS'' \<mapsto> ''True''] (doxygen_exit 2)
             (directory_with ''INPUT = @DOXYGEN_INPUT_DIR@'')) =
     None"
proof -
  let ?env = "[''READTHEDOCS'' \<mapsto> ''True'']"
  let ?w1 = "\<lparr>files = plain Map.empty, trace = []\<rparr>"
  let ?w2 = "\<lparr>files = plain [''Doxyfile.in'' \<mapsto> File ''GENERATE_XML = YES'', ''Doxyfile'' \<mapsto> Dir],
              trace = []\<rparr>"
  let ?w3 = "\<lparr>files = plain [''Doxyfile.in'' \<mapsto> File [CHR ''c'', CHR ''a'', CHR ''f'', CHR 0xE9]],
              trace = []\<rparr>"
  let ?w4 = "\<lparr>files = link ''Doxyfile'' ''Doxyfile.in''
                        (plain [''Doxyfile.in'' \<mapsto> File [CHR ''c'', CHR ''a'', CHR ''f'', CHR 0xE9]]),
              trace = []\<rparr>"
  let ?w5 = "directory_with ''INPUT = @DOXYGEN_INPUT_DIR@''"
  have e: "?env ''READTHEDOCS'' = Some ''True''"
    by simp
  have "node_at (files ?w1) ''Doxyfile.in'' = Inr None"
    by (simp add: node_at_def plain_def)
  with conf_py_failures[of ?env ?w1 "posix ascii" "doxygen_exit 0", OF e, THEN conjunct1]
  have 1: "raised (conf_py (posix ascii) ?env (doxygen_exit 0) ?w1) =
      Some (OSError FileNotFoundError)"
    by (simp add: raised_def)
  have "open_read (posix ascii) ''Doxyfile.in'' (files ?w2) = Inr (str ''GENERATE_XML = YES'')"
    "denotes (files ?w2) Writing ''Doxyfile'' = Inr ''Doxyfile''"
    "contents (files ?w2) ''Doxyfile'' = Some Dir"
    by (simp_all add: open_read_def plain_def posix_def ascii_def str_def)
  with conf_py_failures[of ?env ?w2 "posix ascii" "doxygen_exit 0", OF e, THEN conjunct2, THEN conjunct1]
  have 2: "raised (conf_py (posix ascii) ?env (doxygen_exit 0) ?w2) =
      Some (OSError IsADirectoryError)"
    by (simp add: raised_def)
  have "node_at (files ?w3) ''Doxyfile.in'' =
      Inr (Some (File [CHR ''c'', CHR ''a'', CHR ''f'', CHR 0xE9]))"
    "decode (encoding (posix ascii)) [CHR ''c'', CHR ''a'', CHR ''f'', CHR 0xE9] = None"
    by (simp_all add: node_at_def plain_def posix_def ascii_def)
  with conf_py_failures[of ?env ?w3 "posix ascii" "doxygen_exit 0", OF e, THEN conjunct2, THEN conjunct2,
      THEN conjunct2, THEN conjunct1]
  have 3: "raised (conf_py (posix ascii) ?env (doxygen_exit 0) ?w3) = Some UnicodeDecodeError"
    by (simp add: raised_def)
  have "configureDoxyfile (posix ascii) (str ''../include'') (str ''build'') (files ?w4) =
      (Inl UnicodeDecodeError, files ?w4)"
    by (simp add: run link_def)
  with conf_py_failures[of ?env ?w4 "posix ascii" "doxygen_exit 0", OF e, THEN conjunct2, THEN conjunct2,
      THEN conjunct2, THEN conjunct2, THEN conjunct1, rule_format,
      of UnicodeDecodeError "files ?w4"]
  have 4: "raised (conf_py (posix ascii) ?env (doxygen_exit 0) ?w4) = Some UnicodeDecodeError"
    by (simp add: raised_def)
  have "open_read (posix ascii) ''Doxyfile.in'' (files ?w5) =
      Inr (str ''INPUT = @DOXYGEN_INPUT_DIR@'') \<and>
    denotes (files ?w5) Writing ''Doxyfile'' = Inr ''Doxyfile'' \<and>
    contents (files ?w5) ''Doxyfile'' \<noteq> Some Dir"
    by (simp add: open_read_def plain_def posix_def ascii_def str_def directory_with_def)
  moreover have "encode (encoding (posix ascii)) (to_linesep (linesep (posix ascii))
      (replace DOXYGEN_OUTPUT_DIR (str ''build'')
         (replace DOXYGEN_INPUT_DIR (str ''../include'') (str ''INPUT = @DOXYGEN_INPUT_DIR@'')))) =
      Some ''INPUT = ../include''"
    by (simp add: run)
  ultimately have 5: "raised (conf_py (posix ascii) ?env (doxygen_exit 2) ?w5) = None"
    using conf_py_failures[of ?env ?w5 "posix ascii" "doxygen_exit 2", OF e, THEN conjunct2, THEN conjunct2,
      THEN conjunct2, THEN conjunct2, THEN conjunct2, rule_format,
      of "str ''INPUT = @DOXYGEN_INPUT_DIR@''" "''Doxyfile''"]
    by simp
  from 1 2 3 4 5 show ?thesis
    by blast
qed

text \<open>
  Claim C8. Whenever the script runs to its end, \<^verbatim>\<open>breathe_projects['posixcpptimer']\<close>
  is \<^verbatim>\<open>../build/docs/doxygen/xml\<close>, whatever the environment holds: the assignment of
  line 86 comes after the branch of line 34 and is not conditional.
\<close>

theorem conf_py_registers_fallback:
  "raised (conf_py pf env sh w) = None \<Longrightarrow>
   registered (conf_py pf env sh w) = Some (VStr ''../build/docs/doxygen/xml'')"
  by (rule conf_py_outcome)

theorem conf_py_registers_fallback_witness:
  "raised (conf_py (posix ascii) [''READTHEDOCS'' \<mapsto> ''True''] (doxygen_exit 0)
             (directory_with ''OUTPUT_DIRECTORY = @DOXYGEN_OUTPUT_DIR@'')) = None \<and>
   registered (conf_py (posix ascii) [''READTHEDOCS'' \<mapsto> ''True''] (doxygen_exit 0)
                 (directory_with ''OUTPUT_DIRECTORY = @DOXYGEN_OUTPUT_DIR@'')) =
     Some (VStr ''../build/docs/doxygen/xml'') \<and>
   raised (conf_py (posix ascii) Map.empty (doxygen_exit 0)
             (directory_with ''OUTPUT_DIRECTORY = @DOXYGEN_OUTPUT_DIR@'')) = None \<and>
   registered (conf_py (posix ascii) Map.empty (doxygen_exit 0)
                 (directory_with ''OUTPUT_DIRECTORY = @DOXYGEN_OUTPUT_DIR@'')) =
     Some (VStr ''../build/docs/doxygen/xml'')"
proof -
  let ?w = "directory_with ''OUTPUT_DIRECTORY = @DOXYGEN_OUTPUT_DIR@''"
  obtain fsys' where c: "configureDoxyfile (posix ascii) (str ''../include'') (str ''build'')
      (files ?w) = (Inr (), fsys')"
    by (simp add: run directory_with_def)
  have rtd: "raised (conf_py (posix ascii) [''READTHEDOCS'' \<mapsto> ''True''] (doxygen_exit 0) ?w) = None"
    using conf_py_rtd_returns[of "[''READTHEDOCS'' \<mapsto> ''True'']" "posix ascii" ?w "()" fsys'
        "doxygen_exit 0"] c
    by simp
  have elsewhere: "raised (conf_py (posix ascii) Map.empty (doxygen_exit 0) ?w) = None"
    by (simp add: conf_py_elsewhere raised_def setitem_def settings_def project_settings_def)
  from rtd elsewhere
    conf_py_registers_fallback[of "posix ascii" "[''READTHEDOCS'' \<mapsto> ''True'']" "doxygen_exit 0" ?w]
    conf_py_registers_fallback[of "posix ascii" Map.empty "doxygen_exit 0" ?w]
  show ?thesis
    by simp
qed

end
